theory Spec2Isabelle
  imports Complex_Main "HOL-Library.AList" "HOL-Library.Finite_Map"
begin

section \<open>JavaScript values and strings\<close>

text \<open>
  The services are written in TypeScript and run on a JavaScript host. Strings are
  \<open>string\<close>, \<open>Date.now()\<close> is a natural number of milliseconds, a
  \<open>Map\<close> is an association list in insertion order (\<open>AList.update\<close>
  overwrites in place or appends, \<open>AList.delete\<close> removes, \<open>map_of\<close>
  reads), and a value of type \<open>any\<close> is a \<open>js\<close> value.
\<close>

text \<open>\<open>s.split(c)\<close> for a one-character separator: never the empty array.\<close>

fun js_split :: "char \<Rightarrow> string \<Rightarrow> string list" where
  "js_split c [] = [[]]"
| "js_split c (x # xs) =
     (if x = c then [] # js_split c xs
      else (case js_split c xs of
              w # ws \<Rightarrow> (x # w) # ws
            | [] \<Rightarrow> [[x]]))"

text \<open>\<open>parts.join(sep)\<close>.\<close>

fun js_join :: "string \<Rightarrow> string list \<Rightarrow> string" where
  "js_join sep [] = []"
| "js_join sep [w] = w"
| "js_join sep (w # v # ws) = w @ sep @ js_join sep (v # ws)"

text \<open>\<open>parts.slice(-n)\<close>: the last \<open>n\<close> elements, all of them when there are fewer.\<close>

definition slice_last :: "nat \<Rightarrow> 'a list \<Rightarrow> 'a list" where
  "slice_last n xs = drop (length xs - n) xs"

text \<open>\<open>parts[0]\<close>, \<open>undefined\<close> on the empty array written out as the empty string
  (\<open>js_split\<close> never returns it).\<close>

definition first_part :: "string list \<Rightarrow> string" where
  "first_part ws = (case ws of w # _ \<Rightarrow> w | [] \<Rightarrow> [])"

text \<open>The decimal numeral a template literal prints for a non-negative integer.\<close>

definition digit_char :: "nat \<Rightarrow> char" where
  "digit_char d = ''0123456789'' ! d"

function string_of_nat :: "nat \<Rightarrow> string" where
  "string_of_nat n =
     (if n < 10 then [digit_char n]
      else string_of_nat (n div 10) @ [digit_char (n mod 10)])"
  by pat_completeness auto
termination
  by (relation "measure id") auto

declare string_of_nat.simps [simp del]

datatype js =
    JUndefined
  | JNull
  | JBool bool
  | JNaN
  | JNum real
  | JStr string
  | JArr "js list"
  | JObj "(string, js) fmap"

datatype js_error = TypeError | SyntaxError

text \<open>The own enumerable properties of a value, as an object spread \<open>{...v}\<close> copies
  them: all properties of an object, the indices of an array or of a string, nothing of
  \<open>null\<close>, \<open>undefined\<close>, a number or a boolean.\<close>

definition index_keys :: "nat \<Rightarrow> string list" where
  "index_keys n = map string_of_nat [0..<n]"

fun own_props :: "js \<Rightarrow> (string, js) fmap" where
  "own_props (JObj m) = m"
| "own_props (JArr xs) = fmap_of_list (zip (index_keys (length xs)) xs)"
| "own_props (JStr s) = fmap_of_list (zip (index_keys (length s)) (map (\<lambda>c. JStr [c]) s))"
| "own_props _ = fmempty"

text \<open>Property read \<open>v.k\<close> for a name \<open>k\<close> that no prototype defines:
  a \<open>TypeError\<close> on \<open>null\<close> and \<open>undefined\<close>, \<open>undefined\<close> where the
  property is missing.\<close>

definition get_prop :: "js \<Rightarrow> string \<Rightarrow> js_error + js" where
  "get_prop v k =
     (case v of
        JUndefined \<Rightarrow> Inl TypeError
      | JNull \<Rightarrow> Inl TypeError
      | _ \<Rightarrow> Inr (case fmlookup (own_props v) k of Some x \<Rightarrow> x | None \<Rightarrow> JUndefined))"

text \<open>Optional chaining \<open>v?.k\<close>.\<close>

definition get_prop_opt :: "js \<Rightarrow> string \<Rightarrow> js" where
  "get_prop_opt v k = (case get_prop v k of Inl _ \<Rightarrow> JUndefined | Inr x \<Rightarrow> x)"

fun truthy :: "js \<Rightarrow> bool" where
  "truthy JUndefined = False"
| "truthy JNull = False"
| "truthy (JBool b) = b"
| "truthy JNaN = False"
| "truthy (JNum x) = (x \<noteq> 0)"
| "truthy (JStr s) = (s \<noteq> [])"
| "truthy (JArr _) = True"
| "truthy (JObj _) = True"

fun typeof :: "js \<Rightarrow> string" where
  "typeof JUndefined = ''undefined''"
| "typeof JNull = ''object''"
| "typeof (JBool _) = ''boolean''"
| "typeof JNaN = ''number''"
| "typeof (JNum _) = ''number''"
| "typeof (JStr _) = ''string''"
| "typeof (JArr _) = ''object''"
| "typeof (JObj _) = ''object''"

text \<open>Strict equality \<open>a === b\<close> where at least one side is a primitive: primitives
  compare by value, \<open>NaN\<close> equals nothing, and an object or array never equals a
  primitive. It is used where one side is a string literal; two objects are compared
  with \<open>strict_eq_ref\<close>.\<close>

fun strict_eq :: "js \<Rightarrow> js \<Rightarrow> bool" where
  "strict_eq JUndefined JUndefined = True"
| "strict_eq JNull JNull = True"
| "strict_eq (JBool a) (JBool b) = (a = b)"
| "strict_eq (JNum a) (JNum b) = (a = b)"
| "strict_eq (JStr a) (JStr b) = (a = b)"
| "strict_eq _ _ = False"

text \<open>Strict equality of any two values. Two objects (or arrays) are equal exactly when
  they are one and the same object. A value here carries no reference, so whether two
  values are the same object is the parameter \<open>same_ref\<close>; one object has one content,
  so values that differ are never the same object.\<close>

fun is_object :: "js \<Rightarrow> bool" where
  "is_object (JArr _) = True"
| "is_object (JObj _) = True"
| "is_object _ = False"

definition strict_eq_ref :: "(js \<Rightarrow> js \<Rightarrow> bool) \<Rightarrow> js \<Rightarrow> js \<Rightarrow> bool" where
  "strict_eq_ref same_ref a b =
     (if is_object a \<and> is_object b then a = b \<and> same_ref a b else strict_eq a b)"

section \<open>SimpleWebSocketService\<close>

text \<open>The options of \<open>connect\<close>. A callback is an opaque reference: the service only
  ever calls it, and the call is recorded in the trace.\<close>

record ws_options =
  onOpen :: "nat option"
  onMessage :: "nat option"
  onClose :: "nat option"
  onError :: "nat option"
  enableReconnect :: "bool option"

datatype ready_state = CONNECTING | OPEN | CLOSING | CLOSED

text \<open>A \<open>WebSocket\<close> object with what its handlers close over.\<close>

record websocket =
  ws_url :: string
  readyState :: ready_state
  ws_connectionId :: string
  ws_options :: ws_options

text \<open>A task given to \<open>setTimeout\<close> by the close handler, with what it closes over.\<close>

record timer =
  t_connectionId :: string
  t_url :: string
  t_options :: ws_options
  t_attempts :: nat
  t_delay :: real

datatype effect =
    SocketClose nat nat string
  | SocketSend nat js
  | ClearTimeout nat
  | Callback nat
  | Invoke nat js
  | ConsoleWarn string
  | ConsoleError string

text \<open>The three maps of the service, and the host around it: every socket created
  (a handle is its position), the pending timer tasks, and the trace of effects.\<close>

record service =
  connections :: "(string \<times> nat) list"
  reconnectTimeouts :: "(string \<times> nat) list"
  reconnectAttempts :: "(string \<times> nat) list"
  sockets :: "websocket list"
  timers :: "(nat \<times> timer) list"
  timer_seq :: nat
  effects :: "effect list"

definition new_service :: service where
  "new_service =
     \<lparr>connections = [], reconnectTimeouts = [], reconnectAttempts = [],
      sockets = [], timers = [], timer_seq = 0, effects = []\<rparr>"

definition maxReconnectAttempts :: nat where
  "maxReconnectAttempts = 5"

definition baseReconnectDelay :: real where
  "baseReconnectDelay = 2000"

definition emit_effect :: "effect \<Rightarrow> service \<Rightarrow> service" where
  "emit_effect e s = s\<lparr>effects := effects s @ [e]\<rparr>"

text \<open>\<open>cb?.()\<close>\<close>

definition call_opt :: "nat option \<Rightarrow> service \<Rightarrow> service" where
  "call_opt cb s = (case cb of None \<Rightarrow> s | Some f \<Rightarrow> emit_effect (Callback f) s)"

text \<open>The \<open>readyState\<close> of the socket behind a handle.\<close>

definition set_ready :: "nat \<Rightarrow> ready_state \<Rightarrow> service \<Rightarrow> service" where
  "set_ready h r s =
     (if h < length (sockets s)
      then s\<lparr>sockets := (sockets s)[h := (sockets s ! h)\<lparr>readyState := r\<rparr>]\<rparr>
      else s)"

definition ready_of :: "nat \<Rightarrow> service \<Rightarrow> ready_state option" where
  "ready_of h s = (if h < length (sockets s) then Some (readyState (sockets s ! h)) else None)"

text \<open>\<open>socket.close(code, reason)\<close>: a socket that is connecting or open starts its
  closing handshake; the close event comes later, from the host.\<close>

definition socket_close :: "nat \<Rightarrow> nat \<Rightarrow> string \<Rightarrow> service \<Rightarrow> service" where
  "socket_close h code reason s =
     (let s1 = emit_effect (SocketClose h code reason) s
      in if ready_of h s1 = Some CONNECTING \<or> ready_of h s1 = Some OPEN
         then set_ready h CLOSING s1 else s1)"

text \<open>\<open>clearTimeout(t)\<close>: the task is no longer pending.\<close>

definition clearTimeout :: "nat \<Rightarrow> service \<Rightarrow> service" where
  "clearTimeout t s = emit_effect (ClearTimeout t) (s\<lparr>timers := AList.delete t (timers s)\<rparr>)"

text \<open>\<open>setTimeout(task, delay)\<close>: a fresh, non-zero (truthy) handle.\<close>

definition setTimeout :: "timer \<Rightarrow> service \<Rightarrow> nat \<times> service" where
  "setTimeout task s =
     (let t = Suc (timer_seq s)
      in (t, s\<lparr>timers := AList.update t task (timers s), timer_seq := t\<rparr>))"

text \<open>\<open>new WebSocket(url)\<close> in state \<open>CONNECTING\<close>, with the handlers of
  \<open>connect\<close> attached.\<close>

definition new_socket :: "string \<Rightarrow> string \<Rightarrow> ws_options \<Rightarrow> service \<Rightarrow> nat \<times> service" where
  "new_socket url cid options s =
     (length (sockets s),
      s\<lparr>sockets := sockets s @
           [\<lparr>ws_url = url, readyState = CONNECTING, ws_connectionId = cid, ws_options = options\<rparr>]\<rparr>)"

text \<open>\<open>url.split('/').slice(-2).join('/')\<close>\<close>

definition url_path :: "string \<Rightarrow> string" where
  "url_path url = js_join ''/'' (slice_last 2 (js_split CHR ''/'' url))"

text \<open>\<open>id.split('_')[0]\<close>\<close>

definition id_path :: "string \<Rightarrow> string" where
  "id_path cid = first_part (js_split CHR ''_'' cid)"

text \<open>The body of \<open>existingConnections.forEach\<close> in \<open>connect\<close>.\<close>

definition close_existing :: "string \<times> nat \<Rightarrow> service \<Rightarrow> service" where
  "close_existing e s =
     (let cid = fst e;
          s1 = socket_close (snd e) 1000 ''Replacing with new connection'' s;
          s2 = s1\<lparr>connections := AList.delete cid (connections s1)\<rparr>;
          s3 = (case map_of (reconnectTimeouts s2) cid of
                  Some t \<Rightarrow> (clearTimeout t s2)\<lparr>reconnectTimeouts :=
                               AList.delete cid (reconnectTimeouts s2)\<rparr>
                | None \<Rightarrow> s2)
      in s3\<lparr>reconnectAttempts := AList.delete cid (reconnectAttempts s3)\<rparr>)"

text \<open>\<open>connect(url, options)\<close>. \<open>valid\<close> says for which URLs the host's
  \<open>WebSocket\<close> constructor does not throw, \<open>now\<close> is \<open>Date.now()\<close>. The
  constructor's exception is logged and thrown again, after the existing connections
  were closed.\<close>

definition connect ::
  "(string \<Rightarrow> bool) \<Rightarrow> nat \<Rightarrow> string \<Rightarrow> ws_options \<Rightarrow> service \<Rightarrow> service \<times> (js_error + string)" where
  "connect valid now url options s =
     (let urlPath = url_path url;
          cid = urlPath @ ''_'' @ string_of_nat now;
          existingConnections = filter (\<lambda>e. id_path (fst e) = urlPath) (connections s);
          s1 = fold close_existing existingConnections s
      in if \<not> valid url
         then (emit_effect (ConsoleError ''Failed to create WebSocket connection'') s1,
               Inl SyntaxError)
         else (let (h, s2) = new_socket url cid options s1;
                   s3 = s2\<lparr>reconnectAttempts := AList.update cid 0 (reconnectAttempts s2)\<rparr>
               in (s3\<lparr>connections := AList.update cid h (connections s3)\<rparr>, Inr cid)))"

text \<open>\<open>socket.onopen\<close>\<close>

definition onopen :: "string \<Rightarrow> ws_options \<Rightarrow> service \<Rightarrow> service" where
  "onopen cid options s =
     call_opt (onOpen options)
       (s\<lparr>reconnectAttempts := AList.update cid 0 (reconnectAttempts s)\<rparr>)"

text \<open>\<open>Math.min(baseDelay * Math.pow(2, attempts), 30000) + Math.random() * 2000\<close>,
  over the reals; \<open>rnd\<close> is the value of \<open>Math.random()\<close>, in \<open>[0, 1)\<close>. The
  code adds in IEEE doubles, and the rounded sum can reach the exponential delay plus
  2000 exactly: an upper bound on the delay that is to hold of the code is not strict.\<close>

definition exponentialDelay :: "nat \<Rightarrow> real" where
  "exponentialDelay attempts = min (baseReconnectDelay * 2 ^ attempts) 30000"

definition jitter :: "real \<Rightarrow> real" where
  "jitter rnd = rnd * 2000"

definition reconnect_delay :: "nat \<Rightarrow> real \<Rightarrow> real" where
  "reconnect_delay attempts rnd = exponentialDelay attempts + jitter rnd"

text \<open>\<open>options.enableReconnect && code !== 1000 && code !== 1001 && code !== 1006 &&
  !event.wasClean\<close>\<close>

definition shouldReconnect :: "ws_options \<Rightarrow> nat \<Rightarrow> bool \<Rightarrow> bool" where
  "shouldReconnect options code wasClean \<longleftrightarrow>
     enableReconnect options = Some True \<and> code \<noteq> 1000 \<and> code \<noteq> 1001 \<and> code \<noteq> 1006
     \<and> \<not> wasClean"

text \<open>\<open>this.reconnectAttempts.get(connectionId) || 0\<close>\<close>

definition stored_attempts :: "string \<Rightarrow> service \<Rightarrow> nat" where
  "stored_attempts cid s = (case map_of (reconnectAttempts s) cid of Some n \<Rightarrow> n | None \<Rightarrow> 0)"

text \<open>\<open>socket.onclose\<close> of the socket that \<open>connect(url, options)\<close> registered as
  \<open>cid\<close>, for a close event with \<open>code\<close> and \<open>wasClean\<close>.\<close>

definition onclose ::
  "string \<Rightarrow> ws_options \<Rightarrow> string \<Rightarrow> nat \<Rightarrow> bool \<Rightarrow> real \<Rightarrow> service \<Rightarrow> service" where
  "onclose url options cid code wasClean rnd s =
     (let s1 = s\<lparr>connections := AList.delete cid (connections s)\<rparr>;
          s2 = (case map_of (reconnectTimeouts s1) cid of
                  Some existingTimeout \<Rightarrow>
                    (clearTimeout existingTimeout s1)\<lparr>reconnectTimeouts :=
                       AList.delete cid (reconnectTimeouts s1)\<rparr>
                | None \<Rightarrow> s1);
          s3 = call_opt (onClose options) s2
      in if shouldReconnect options code wasClean
         then (let attempts = stored_attempts cid s3
               in if attempts < maxReconnectAttempts
                  then (let delay = reconnect_delay attempts rnd;
                            (timeout, s4) =
                               setTimeout \<lparr>t_connectionId = cid, t_url = url,
                                           t_options = options, t_attempts = attempts,
                                           t_delay = delay\<rparr> s3
                        in s4\<lparr>reconnectTimeouts :=
                                AList.update cid timeout (reconnectTimeouts s4)\<rparr>)
                  else (emit_effect (ConsoleWarn ''Max reconnection attempts reached'') s3)
                         \<lparr>reconnectAttempts := AList.delete cid (reconnectAttempts s3)\<rparr>)
         else s3\<lparr>reconnectAttempts := AList.delete cid (reconnectAttempts s3)\<rparr>)"

text \<open>The task of the reconnect timer: the exception of \<open>connect\<close> is caught.\<close>

definition reconnect_task :: "(string \<Rightarrow> bool) \<Rightarrow> nat \<Rightarrow> timer \<Rightarrow> service \<Rightarrow> service" where
  "reconnect_task valid now task s =
     (let cid = t_connectionId task
      in if map_of (reconnectAttempts s) cid \<noteq> None
         then (let s1 = s\<lparr>reconnectAttempts :=
                           AList.update cid (t_attempts task + 1) (reconnectAttempts s)\<rparr>;
                   (s2, r) = connect valid now (t_url task) (t_options task) s1
               in (case r of
                     Inl _ \<Rightarrow> emit_effect (ConsoleError ''Reconnection attempt failed'') s2
                   | Inr _ \<Rightarrow> s2))
         else s)"

text \<open>\<open>disconnect(connectionId)\<close>\<close>

definition disconnect :: "string \<Rightarrow> service \<Rightarrow> service" where
  "disconnect cid s =
     (let s1 = (case map_of (connections s) cid of
                  Some socket \<Rightarrow>
                    (socket_close socket 1000 ''Manual disconnect'' s)\<lparr>connections :=
                       AList.delete cid (connections s)\<rparr>
                | None \<Rightarrow> s);
          s2 = (case map_of (reconnectTimeouts s1) cid of
                  Some timeout \<Rightarrow>
                    (clearTimeout timeout s1)\<lparr>reconnectTimeouts :=
                       AList.delete cid (reconnectTimeouts s1)\<rparr>
                | None \<Rightarrow> s1)
      in s2\<lparr>reconnectAttempts := AList.delete cid (reconnectAttempts s2)\<rparr>)"

text \<open>\<open>disconnectAll()\<close>\<close>

definition disconnectAll :: "service \<Rightarrow> service" where
  "disconnectAll s =
     (let s1 = fold (\<lambda>e. socket_close (snd e) 1000 ''Manual disconnect all'') (connections s) s;
          s2 = s1\<lparr>connections := []\<rparr>;
          s3 = fold (\<lambda>e. clearTimeout (snd e)) (reconnectTimeouts s2) s2
      in s3\<lparr>reconnectTimeouts := [], reconnectAttempts := []\<rparr>)"

text \<open>\<open>isConnected(connectionId)\<close>: \<open>socket?.readyState === WebSocket.OPEN\<close>\<close>

definition isConnected :: "string \<Rightarrow> service \<Rightarrow> bool" where
  "isConnected cid s =
     (case map_of (connections s) cid of
        Some socket \<Rightarrow> ready_of socket s = Some OPEN
      | None \<Rightarrow> False)"

text \<open>\<open>sendMessage(connectionId, message)\<close>: sent on an open socket, reported
  otherwise; an exception of \<open>send\<close> would be caught.\<close>

definition sendMessage :: "string \<Rightarrow> js \<Rightarrow> service \<Rightarrow> service" where
  "sendMessage cid message s =
     (case map_of (connections s) cid of
        Some socket \<Rightarrow>
          (if ready_of socket s = Some OPEN
           then emit_effect (SocketSend socket message) s
           else emit_effect (ConsoleWarn ''WebSocket not ready'') s)
      | None \<Rightarrow> emit_effect (ConsoleWarn ''WebSocket not ready'') s)"

subsection \<open>Events of the host\<close>

text \<open>The host delivers an open or a close event to a socket's handler, and runs a
  pending timer task; a task that was cleared, or has run, never runs.\<close>

definition open_event :: "nat \<Rightarrow> service \<Rightarrow> service" where
  "open_event h s =
     (if h < length (sockets s)
      then (let w = sockets s ! h
            in onopen (ws_connectionId w) (ws_options w) (set_ready h OPEN s))
      else s)"

definition close_event :: "nat \<Rightarrow> nat \<Rightarrow> bool \<Rightarrow> real \<Rightarrow> service \<Rightarrow> service" where
  "close_event h code wasClean rnd s =
     (if h < length (sockets s)
      then (let w = sockets s ! h
            in onclose (ws_url w) (ws_options w) (ws_connectionId w) code wasClean rnd
                 (set_ready h CLOSED s))
      else s)"

definition fire_timer :: "(string \<Rightarrow> bool) \<Rightarrow> nat \<Rightarrow> nat \<Rightarrow> service \<Rightarrow> service" where
  "fire_timer valid now t s =
     (case map_of (timers s) t of
        Some task \<Rightarrow> reconnect_task valid now task (s\<lparr>timers := AList.delete t (timers s)\<rparr>)
      | None \<Rightarrow> s)"

subsection \<open>A session of the service\<close>

text \<open>The scenario of the specification: room \<open>r1\<close>, reconnection enabled, every URL
  accepted by the host; the first \<open>connect\<close> at time 1000.\<close>

definition room_url :: string where
  "room_url = ''ws://localhost:5000/ws/collaboration/r1''"

definition reconnecting :: ws_options where
  "reconnecting =
     \<lparr>onOpen = None, onMessage = None, onClose = None, onError = None,
      enableReconnect = Some True\<rparr>"

definition any_url :: "string \<Rightarrow> bool" where
  "any_url url = True"

definition connected_once :: service where
  "connected_once = fst (connect any_url 1000 room_url reconnecting new_service)"

text \<open>Then the socket closes unexpectedly (code 1011, not clean), with
  \<open>Math.random()\<close> giving one half.\<close>

definition closed_once :: service where
  "closed_once = close_event 0 1011 False (1 / 2) connected_once"

text \<open>A room whose id has an underscore, connected to twice, at times 1000 and 2000.\<close>

definition schema_url :: string where
  "schema_url = ''ws://localhost:5000/ws/collaboration/my_schema''"

definition connected_twice :: service where
  "connected_twice =
     fst (connect any_url 2000 schema_url reconnecting
            (fst (connect any_url 1000 schema_url reconnecting new_service)))"

text \<open>\<open>failed_attempts k\<close>: after the first \<open>connect\<close>, \<open>k\<close> times over the current
  socket closes unexpectedly (code 1011, not clean, no jitter) and the timer that this
  close scheduled runs, 3000 ms later.\<close>

fun failed_attempts :: "nat \<Rightarrow> service" where
  "failed_attempts 0 = connected_once"
| "failed_attempts (Suc k) =
     fire_timer any_url (1000 + 3000 * Suc k) (Suc k)
       (close_event k 1011 False 0 (failed_attempts k))"

section \<open>CollaborationService\<close>

datatype role = Admin | Editor | Viewer

record CollaborationUser =
  user_id :: string
  username :: string
  user_role :: role
  avatar :: "string option"
  color :: string

record CursorPosition =
  pos_x :: real
  pos_y :: real
  pos_tableId :: "string option"
  pos_columnId :: "string option"

datatype change_kind =
  table_created | table_updated | table_deleted | relationship_added | relationship_removed

record SchemaChange =
  change_type :: change_kind
  change_data :: js
  change_userId :: string
  change_timestamp :: string

record Selection =
  sel_tableId :: "string option"
  sel_columnId :: "string option"

datatype presence = online | away | busy

text \<open>The values as JavaScript objects; an optional field that is absent is no
  property.\<close>

definition opt_field :: "string \<Rightarrow> string option \<Rightarrow> (string \<times> js) list" where
  "opt_field k v = (case v of None \<Rightarrow> [] | Some x \<Rightarrow> [(k, JStr x)])"

definition position_js :: "CursorPosition \<Rightarrow> js" where
  "position_js p =
     JObj (fmap_of_list ([(''x'', JNum (pos_x p)), (''y'', JNum (pos_y p))]
            @ opt_field ''tableId'' (pos_tableId p) @ opt_field ''columnId'' (pos_columnId p)))"

definition selection_js :: "Selection \<Rightarrow> js" where
  "selection_js x =
     JObj (fmap_of_list (opt_field ''tableId'' (sel_tableId x)
            @ opt_field ''columnId'' (sel_columnId x)))"

fun change_kind_name :: "change_kind \<Rightarrow> string" where
  "change_kind_name table_created = ''table_created''"
| "change_kind_name table_updated = ''table_updated''"
| "change_kind_name table_deleted = ''table_deleted''"
| "change_kind_name relationship_added = ''relationship_added''"
| "change_kind_name relationship_removed = ''relationship_removed''"

fun presence_name :: "presence \<Rightarrow> string" where
  "presence_name online = ''online''"
| "presence_name away = ''away''"
| "presence_name busy = ''busy''"

text \<open>The fields of the class, the connection manager it imports, and its console and
  handler calls. A handler is a function reference.\<close>

record collab =
  connectionId :: "string option"
  currentUser :: "CollaborationUser option"
  schemaId :: "string option"
  eventHandlers :: "(string \<times> nat list) list"
  isConnectedFlag :: bool
  isIntentionalDisconnect :: bool
  ws_service :: service
  trace :: "effect list"

definition new_collab :: collab where
  "new_collab =
     \<lparr>connectionId = None, currentUser = None, schemaId = None, eventHandlers = [],
      isConnectedFlag = False, isIntentionalDisconnect = False, ws_service = new_service,
      trace = []\<rparr>"

definition initialize :: "CollaborationUser \<Rightarrow> string \<Rightarrow> collab \<Rightarrow> collab" where
  "initialize user sid c = c\<lparr>currentUser := Some user, schemaId := Some sid\<rparr>"

definition log_effect :: "effect \<Rightarrow> collab \<Rightarrow> collab" where
  "log_effect e c = c\<lparr>trace := trace c @ [e]\<rparr>"

definition bind_err :: "js_error + 'a \<Rightarrow> ('a \<Rightarrow> js_error + 'b) \<Rightarrow> js_error + 'b" where
  "bind_err r f = (case r of Inl e \<Rightarrow> Inl e | Inr x \<Rightarrow> f x)"

subsection \<open>The event bus\<close>

text \<open>\<open>this.eventHandlers.get(event)\<close>, none read as no handlers.\<close>

definition handlers_of :: "string \<Rightarrow> collab \<Rightarrow> nat list" where
  "handlers_of event c = (case map_of (eventHandlers c) event of Some hs \<Rightarrow> hs | None \<Rightarrow> [])"

text \<open>\<open>on(event, handler)\<close>\<close>

definition on_event :: "string \<Rightarrow> nat \<Rightarrow> collab \<Rightarrow> collab" where
  "on_event event handler c =
     (let c1 = (if map_of (eventHandlers c) event = None
                then c\<lparr>eventHandlers := AList.update event [] (eventHandlers c)\<rparr>
                else c)
      in c1\<lparr>eventHandlers :=
              AList.update event (handlers_of event c1 @ [handler]) (eventHandlers c1)\<rparr>)"

text \<open>\<open>handlers.indexOf(handler)\<close> and \<open>handlers.splice(index, 1)\<close>\<close>

fun indexOf :: "nat list \<Rightarrow> nat \<Rightarrow> int" where
  "indexOf [] h = - 1"
| "indexOf (x # xs) h =
     (if x = h then 0 else (let i = indexOf xs h in if i = - 1 then - 1 else i + 1))"

definition splice1 :: "nat \<Rightarrow> 'a list \<Rightarrow> 'a list" where
  "splice1 i xs = take i xs @ drop (Suc i) xs"

text \<open>\<open>off(event, handler)\<close>\<close>

definition off_event :: "string \<Rightarrow> nat \<Rightarrow> collab \<Rightarrow> collab" where
  "off_event event handler c =
     (case map_of (eventHandlers c) event of
        Some handlers \<Rightarrow>
          (let index = indexOf handlers handler
           in if index > - 1
              then c\<lparr>eventHandlers :=
                      AList.update event (splice1 (nat index) handlers) (eventHandlers c)\<rparr>
              else c)
      | None \<Rightarrow> c)"

text \<open>\<open>emit(event, data)\<close>. \<open>throws h data\<close> says whether handler \<open>h\<close> throws on
  \<open>data\<close>; the exception is caught and logged, and the next handler runs. Handlers do
  not call back into the service while they run.\<close>

definition run_handler :: "(nat \<Rightarrow> js \<Rightarrow> bool) \<Rightarrow> js \<Rightarrow> nat \<Rightarrow> collab \<Rightarrow> collab" where
  "run_handler throws data h c =
     (let c1 = log_effect (Invoke h data) c
      in if throws h data then log_effect (ConsoleError ''Error in event handler'') c1 else c1)"

definition emit :: "(nat \<Rightarrow> js \<Rightarrow> bool) \<Rightarrow> string \<Rightarrow> js \<Rightarrow> collab \<Rightarrow> collab" where
  "emit throws event data c =
     (case map_of (eventHandlers c) event of
        Some handlers \<Rightarrow>
          (if length handlers > 0 then fold (run_handler throws data) handlers c else c)
      | None \<Rightarrow> c)"

text \<open>The handler calls recorded in a trace, in order.\<close>

fun invoked :: "effect list \<Rightarrow> (nat \<times> js) list" where
  "invoked [] = []"
| "invoked (Invoke h d # es) = (h, d) # invoked es"
| "invoked (_ # es) = invoked es"

subsection \<open>Inbound messages\<close>

text \<open>The validation of a \<open>cursor_update\<close> payload:
  \<open>cursorData && typeof cursorData === 'object' && cursorData.userId &&
  typeof cursorData.userId === 'string'\<close>\<close>

definition valid_cursor :: "js \<Rightarrow> bool" where
  "valid_cursor cursorData \<longleftrightarrow>
     truthy cursorData \<and> typeof cursorData = ''object''
     \<and> (case get_prop cursorData ''userId'' of
           Inr u \<Rightarrow> truthy u \<and> typeof u = ''string''
         | Inl _ \<Rightarrow> False)"

text \<open>\<open>handleMessage(message)\<close>: the \<open>switch\<close> on \<open>message.type\<close>.\<close>

definition handleMessage :: "(nat \<Rightarrow> js \<Rightarrow> bool) \<Rightarrow> js \<Rightarrow> collab \<Rightarrow> js_error + collab" where
  "handleMessage throws message c =
     bind_err (get_prop message ''type'') (\<lambda>t.
       if strict_eq t (JStr ''connection_established'') then Inr c
       else if strict_eq t (JStr ''user_joined'') then
         bind_err (get_prop message ''user'') (\<lambda>user. Inr (emit throws ''user_joined'' user c))
       else if strict_eq t (JStr ''user_left'') then
         bind_err (get_prop message ''userId'') (\<lambda>uid. Inr (emit throws ''user_left'' uid c))
       else if strict_eq t (JStr ''cursor_update'') then
         bind_err (get_prop message ''data'') (\<lambda>cursorData.
           if valid_cursor cursorData
           then Inr (emit throws ''cursor_update'' cursorData c)
           else Inr (log_effect (ConsoleWarn ''Invalid cursor_update message structure'') c))
       else if strict_eq t (JStr ''schema_change'') then
         Inr (emit throws ''schema_change'' message c)
       else if strict_eq t (JStr ''user_selection'') then
         bind_err (get_prop message ''data'') (\<lambda>d. Inr (emit throws ''user_selection'' d c))
       else if strict_eq t (JStr ''presence_update'') then
         bind_err (get_prop message ''data'') (\<lambda>d. Inr (emit throws ''presence_update'' d c))
       else Inr c)"

text \<open>What the specification asks of a \<open>cursor_update\<close> payload: an object with a
  non-empty string \<open>userId\<close>.\<close>

fun object_with_userId :: "js \<Rightarrow> bool" where
  "object_with_userId (JObj m) =
     (case fmlookup m ''userId'' of Some (JStr u) \<Rightarrow> u \<noteq> [] | _ \<Rightarrow> False)"
| "object_with_userId _ = False"

subsection \<open>Outbound messages\<close>

text \<open>The private \<open>sendMessage(message)\<close>: handed to the connection manager when the
  session has a connection id, its own flag is set and the manager reports the socket
  open; reported otherwise.\<close>

definition session_connected :: "collab \<Rightarrow> bool" where
  "session_connected c \<longleftrightarrow>
     (case connectionId c of
        Some cid \<Rightarrow> cid \<noteq> [] \<and> isConnectedFlag c \<and> isConnected cid (ws_service c)
      | None \<Rightarrow> False)"

definition send :: "js \<Rightarrow> collab \<Rightarrow> collab" where
  "send message c =
     (case connectionId c of
        Some cid \<Rightarrow>
          (if cid \<noteq> [] \<and> isConnectedFlag c \<and> isConnected cid (ws_service c)
           then c\<lparr>ws_service := sendMessage cid message (ws_service c)\<rparr>
           else log_effect (ConsoleWarn ''WebSocket not connected or ready, message not sent'') c)
      | None \<Rightarrow> log_effect (ConsoleWarn ''WebSocket not connected or ready, message not sent'') c)"

text \<open>\<open>this.currentUser!.id\<close>: the \<open>!\<close> is erased by the compiler, and the read of
  \<open>id\<close> on \<open>null\<close> throws.\<close>

definition currentUser_id :: "collab \<Rightarrow> js_error + string" where
  "currentUser_id c = (case currentUser c of None \<Rightarrow> Inl TypeError | Some u \<Rightarrow> Inr (user_id u))"

text \<open>The four senders; \<open>stamp\<close> is \<open>new Date().toISOString()\<close>.\<close>

definition cursor_message :: "string \<Rightarrow> CollaborationUser \<Rightarrow> CursorPosition \<Rightarrow> js" where
  "cursor_message stamp u position =
     JObj (fmap_of_list
       [(''type'', JStr ''cursor_update''),
        (''cursor'', JObj (fmap_of_list
           [(''userId'', JStr (user_id u)), (''username'', JStr (username u)),
            (''position'', position_js position), (''color'', JStr (color u)),
            (''lastSeen'', JStr stamp)]))])"

definition sendCursorUpdate :: "string \<Rightarrow> CursorPosition \<Rightarrow> collab \<Rightarrow> js_error + collab" where
  "sendCursorUpdate stamp position c =
     (case currentUser c of
        None \<Rightarrow> Inr (log_effect (ConsoleWarn ''Cannot send cursor update: no current user'') c)
      | Some u \<Rightarrow> Inr (send (cursor_message stamp u position) c))"

definition schema_change_message :: "string \<Rightarrow> string \<Rightarrow> SchemaChange \<Rightarrow> js" where
  "schema_change_message stamp uid change =
     JObj (fmap_of_list
       [(''type'', JStr ''schema_change''),
        (''changeType'', JStr (change_kind_name (change_type change))),
        (''data'', change_data change), (''userId'', JStr uid), (''timestamp'', JStr stamp)])"

definition sendSchemaChange :: "string \<Rightarrow> SchemaChange \<Rightarrow> collab \<Rightarrow> js_error + collab" where
  "sendSchemaChange stamp change c =
     bind_err (currentUser_id c) (\<lambda>uid. Inr (send (schema_change_message stamp uid change) c))"

definition user_selection_message :: "string \<Rightarrow> string \<Rightarrow> Selection \<Rightarrow> js" where
  "user_selection_message stamp uid selection =
     JObj (fmap_of_list
       [(''type'', JStr ''user_selection''),
        (''data'', JObj (fmap_of_list
           [(''userId'', JStr uid), (''selection'', selection_js selection),
            (''timestamp'', JStr stamp)]))])"

definition sendUserSelection :: "string \<Rightarrow> Selection \<Rightarrow> collab \<Rightarrow> js_error + collab" where
  "sendUserSelection stamp selection c =
     bind_err (currentUser_id c) (\<lambda>uid. Inr (send (user_selection_message stamp uid selection) c))"

definition presence_message :: "string \<Rightarrow> string \<Rightarrow> presence \<Rightarrow> string option \<Rightarrow> js" where
  "presence_message stamp uid status currentAction =
     JObj (fmap_of_list
       [(''type'', JStr ''presence_update''),
        (''data'', JObj (fmap_of_list
           ([(''userId'', JStr uid), (''status'', JStr (presence_name status))]
            @ opt_field ''currentAction'' currentAction @ [(''timestamp'', JStr stamp)])))])"

definition updatePresence ::
  "string \<Rightarrow> presence \<Rightarrow> string option \<Rightarrow> collab \<Rightarrow> js_error + collab" where
  "updatePresence stamp status currentAction c =
     bind_err (currentUser_id c)
       (\<lambda>uid. Inr (send (presence_message stamp uid status currentAction) c))"

subsection \<open>Conflict resolution\<close>

text \<open>\<open>new Date(v).getTime()\<close>, \<open>None\<close> for \<open>NaN\<close>: a number is clipped to the
  range of dates and truncated, \<open>null\<close> is 0, \<open>undefined\<close> is no date; how the host
  parses a string (or what an object converts to) is the parameter \<open>parse\<close>.\<close>

definition time_clip :: "real \<Rightarrow> real option" where
  "time_clip x =
     (if \<bar>x\<bar> > 8640000000000000 then None
      else Some (of_int (if 0 \<le> x then \<lfloor>x\<rfloor> else \<lceil>x\<rceil>)))"

definition date_getTime :: "(js \<Rightarrow> real option) \<Rightarrow> js \<Rightarrow> real option" where
  "date_getTime parse v =
     (case v of
        JUndefined \<Rightarrow> None
      | JNull \<Rightarrow> Some 0
      | JBool b \<Rightarrow> Some (if b then 1 else 0)
      | JNaN \<Rightarrow> None
      | JNum x \<Rightarrow> time_clip x
      | _ \<Rightarrow> parse v)"

text \<open>\<open>Math.max(a, b)\<close> on two numbers, \<open>NaN\<close> when either is.\<close>

definition math_max :: "real option \<Rightarrow> real option \<Rightarrow> real option" where
  "math_max a b =
     (case a of None \<Rightarrow> None
      | Some x \<Rightarrow> (case b of None \<Rightarrow> None | Some y \<Rightarrow> Some (max x y)))"

definition num_js :: "real option \<Rightarrow> js" where
  "num_js a = (case a of None \<Rightarrow> JNaN | Some x \<Rightarrow> JNum x)"

text \<open>\<open>mergeTableOperations(op1, op2)\<close>:
  \<open>{...op1, data: {...op1.data, ...op2.data, lastModified: Math.max(..)}}\<close>\<close>

definition mergeTableOperations :: "(js \<Rightarrow> real option) \<Rightarrow> js \<Rightarrow> js \<Rightarrow> js_error + js" where
  "mergeTableOperations parse op1 op2 =
     bind_err (get_prop op1 ''data'') (\<lambda>data1.
     bind_err (get_prop op2 ''data'') (\<lambda>data2.
     bind_err (get_prop op1 ''timestamp'') (\<lambda>ts1.
     bind_err (get_prop op2 ''timestamp'') (\<lambda>ts2.
       Inr (JObj (fmupd ''data''
              (JObj (fmupd ''lastModified''
                       (num_js (math_max (date_getTime parse ts1) (date_getTime parse ts2)))
                       (own_props data1 ++\<^sub>f own_props data2)))
              (own_props op1)))))))"

text \<open>\<open>transformOperation(operation, otherOperation)\<close>; the two \<open>tableId\<close>s may be
  objects, so their comparison takes \<open>same_ref\<close>.\<close>

definition transformOperation ::
  "(js \<Rightarrow> js \<Rightarrow> bool) \<Rightarrow> (js \<Rightarrow> real option) \<Rightarrow> js \<Rightarrow> js \<Rightarrow> js_error + js" where
  "transformOperation same_ref parse operation otherOperation =
     bind_err (get_prop operation ''type'') (\<lambda>t1.
       if strict_eq t1 (JStr ''table_update'')
       then bind_err (get_prop otherOperation ''type'') (\<lambda>t2.
              if strict_eq t2 (JStr ''table_update'')
              then bind_err (get_prop operation ''tableId'') (\<lambda>id1.
                   bind_err (get_prop otherOperation ''tableId'') (\<lambda>id2.
                     if strict_eq_ref same_ref id1 id2
                     then mergeTableOperations parse operation otherOperation
                     else Inr operation))
              else Inr operation)
       else Inr operation)"

text \<open>\<open>resolveConflict(localChange, remoteChange)\<close>\<close>

definition resolveConflict :: "js \<Rightarrow> js \<Rightarrow> js" where
  "resolveConflict localChange remoteChange = remoteChange"

text \<open>Two updates of table \<open>t1\<close> that both set \<open>name\<close>: the first at time 2000, the
  second at time 1000. No timestamp is a string, so nothing is parsed.\<close>

definition no_parse :: "js \<Rightarrow> real option" where
  "no_parse v = None"

text \<open>Whether two object values are one object: never (each decoded on its own), or
  always (one object passed around).\<close>

definition never_shared :: "js \<Rightarrow> js \<Rightarrow> bool" where
  "never_shared a b = False"

definition always_shared :: "js \<Rightarrow> js \<Rightarrow> bool" where
  "always_shared a b = True"

text \<open>An update whose \<open>tableId\<close> is an array, at time 4000.\<close>

definition op_array_id :: js where
  "op_array_id =
     JObj (fmap_of_list
       [(''type'', JStr ''table_update''), (''tableId'', JArr [JStr ''t1'']),
        (''timestamp'', JNum 4000),
        (''data'', JObj (fmap_of_list [(''name'', JStr ''arr'')]))])"

definition op_later :: js where
  "op_later =
     JObj (fmap_of_list
       [(''type'', JStr ''table_update''), (''tableId'', JStr ''t1''),
        (''timestamp'', JNum 2000),
        (''data'', JObj (fmap_of_list [(''name'', JStr ''new'')]))])"

definition op_earlier :: js where
  "op_earlier =
     JObj (fmap_of_list
       [(''type'', JStr ''table_update''), (''tableId'', JStr ''t1''),
        (''timestamp'', JNum 1000),
        (''data'', JObj (fmap_of_list [(''name'', JStr ''old'')]))])"

text \<open>An update of another table, \<open>t2\<close>.\<close>

definition op_other_table :: js where
  "op_other_table =
     JObj (fmap_of_list
       [(''type'', JStr ''table_update''), (''tableId'', JStr ''t2''),
        (''timestamp'', JNum 3000),
        (''data'', JObj (fmap_of_list [(''name'', JStr ''other'')]))])"

subsection \<open>A session of the collaboration service\<close>

text \<open>One subscriber, handler 7, on \<open>cursor_update\<close>; no handler throws; and an
  inbound \<open>cursor_update\<close> whose payload has no \<open>userId\<close>.\<close>

definition never_throws :: "nat \<Rightarrow> js \<Rightarrow> bool" where
  "never_throws h d = False"

definition subscribed :: collab where
  "subscribed = on_event ''cursor_update'' 7 new_collab"

definition cursor_without_userId :: js where
  "cursor_without_userId =
     JObj (fmap_of_list
       [(''type'', JStr ''cursor_update''),
        (''data'', JObj (fmap_of_list [(''username'', JStr ''ann'')]))])"

text \<open>And one whose payload has it.\<close>

definition cursor_with_userId :: js where
  "cursor_with_userId =
     JObj (fmap_of_list
       [(''type'', JStr ''cursor_update''),
        (''data'', JObj (fmap_of_list [(''userId'', JStr ''u1'')]))])"

text \<open>The number of registrations over all topics.\<close>

definition registrations :: "collab \<Rightarrow> nat" where
  "registrations c = length (concat (map snd (eventHandlers c)))"

section \<open>Invariant of the retry scenario\<close>

text \<open>After \<open>k\<close> failed attempts the service has created \<open>k + 1\<close> sockets and \<open>k\<close>
  timers; the newest socket is for the room, with reconnection enabled, and the attempt
  count stored for its connection id is 0.\<close>

definition retry_inv :: "nat \<Rightarrow> service \<Rightarrow> bool" where
  "retry_inv k s \<longleftrightarrow>
     length (sockets s) = Suc k \<and> timer_seq s = k
     \<and> ws_url (sockets s ! k) = room_url \<and> ws_options (sockets s ! k) = reconnecting
     \<and> map_of (reconnectAttempts s) (ws_connectionId (sockets s ! k)) = Some 0"

section \<open>Properties of the connection manager\<close>

lemma string_of_nat_1000: "string_of_nat 1000 = ''1000''"
  by (simp add: string_of_nat.simps digit_char_def)

lemma url_path_room: "url_path room_url = ''collaboration/r1''"
  by (simp add: url_path_def room_url_def slice_last_def)

lemma connected_once_eq:
  "connected_once =
     \<lparr>connections = [(''collaboration/r1_1000'', 0)], reconnectTimeouts = [],
      reconnectAttempts = [(''collaboration/r1_1000'', 0)],
      sockets = [\<lparr>ws_url = room_url, readyState = CONNECTING,
                  ws_connectionId = ''collaboration/r1_1000'', ws_options = reconnecting\<rparr>],
      timers = [], timer_seq = 0, effects = []\<rparr>"
  by (simp add: connected_once_def connect_def url_path_room string_of_nat_1000 any_url_def
      new_service_def new_socket_def Let_def)

lemma stored_attempts_cleanup:
  "stored_attempts cid
     (call_opt cb (case map_of (reconnectTimeouts s) cid of
        Some existingTimeout \<Rightarrow>
          (clearTimeout existingTimeout (s\<lparr>connections := c\<rparr>))\<lparr>reconnectTimeouts := r\<rparr>
      | None \<Rightarrow> s\<lparr>connections := c\<rparr>)) = stored_attempts cid s"
  by (simp add: stored_attempts_def call_opt_def emit_effect_def clearTimeout_def
      split: option.splits)

lemma timer_seq_cleanup:
  "timer_seq
     (call_opt cb (case map_of (reconnectTimeouts s) cid of
        Some existingTimeout \<Rightarrow>
          (clearTimeout existingTimeout (s\<lparr>connections := c\<rparr>))\<lparr>reconnectTimeouts := r\<rparr>
      | None \<Rightarrow> s\<lparr>connections := c\<rparr>)) = timer_seq s"
  by (simp add: call_opt_def emit_effect_def clearTimeout_def split: option.splits)

text \<open>What an eligible close with attempts left schedules.\<close>

lemma onclose_schedules:
  assumes "shouldReconnect options code wasClean"
    and "stored_attempts cid s < maxReconnectAttempts"
  shows "map_of (reconnectTimeouts (onclose url options cid code wasClean rnd s)) cid
           = Some (Suc (timer_seq s))"
    and "map_of (timers (onclose url options cid code wasClean rnd s)) (Suc (timer_seq s))
           = Some \<lparr>t_connectionId = cid, t_url = url, t_options = options,
                   t_attempts = stored_attempts cid s,
                   t_delay = reconnect_delay (stored_attempts cid s) rnd\<rparr>"
  using assms
  by (simp_all add: onclose_def Let_def setTimeout_def update_conv' stored_attempts_cleanup
      timer_seq_cleanup)

text \<open>What a close that is not eligible leaves behind: no timer for the connection, and
  no call of \<open>setTimeout\<close>.\<close>

lemma onclose_not_eligible:
  assumes "\<not> shouldReconnect options code wasClean"
  shows "map_of (reconnectTimeouts (onclose url options cid code wasClean rnd s)) cid = None"
    and "timer_seq (onclose url options cid code wasClean rnd s) = timer_seq s"
  using assms
  by (simp_all add: onclose_def Let_def call_opt_def emit_effect_def clearTimeout_def
      delete_conv' split: option.splits)

lemma delay_bounds:
  assumes "0 \<le> rnd" and "rnd < 1"
  shows "reconnect_delay n rnd = min (2000 * 2 ^ n) 30000 + jitter rnd"
    and "0 \<le> jitter rnd" and "jitter rnd < 2000"
    and "min (2000 * 2 ^ n) 30000 \<le> reconnect_delay n rnd"
    and "reconnect_delay n rnd \<le> min (2000 * 2 ^ n) 30000 + 2000"
  using assms
  by (simp_all add: reconnect_delay_def exponentialDelay_def baseReconnectDelay_def jitter_def)

lemma delay_uncapped:
  assumes "n \<le> 3" and "0 \<le> rnd"
  shows "2000 * 2 ^ n \<le> reconnect_delay n rnd"
proof -
  from assms(1) have "(2::real) ^ n \<le> 2 ^ 3" by (intro power_increasing) simp_all
  then have "(2000::real) * 2 ^ n \<le> 30000" by simp
  then show ?thesis using assms(2)
    by (simp add: reconnect_delay_def exponentialDelay_def baseReconnectDelay_def jitter_def)
qed

text \<open>
  Claim C2. A close event schedules a reconnect (the handler leaves a timer registered
  for the connection, or has called \<open>setTimeout\<close>) only when \<open>enableReconnect\<close> is
  set, the close code is none of 1000, 1001 and 1006, and the close was not clean. So a
  close with code 1000 or 1001, or a clean one, never schedules a reconnect.
\<close>

theorem reconnect_scheduled_only_if_eligible:
  "map_of (reconnectTimeouts (onclose url options cid code wasClean rnd s)) cid \<noteq> None
     \<or> timer_seq (onclose url options cid code wasClean rnd s) \<noteq> timer_seq s
   \<Longrightarrow> enableReconnect options = Some True \<and> code \<noteq> 1000 \<and> code \<noteq> 1001
         \<and> code \<noteq> 1006 \<and> \<not> wasClean"
proof (cases "shouldReconnect options code wasClean")
  case True
  then show ?thesis by (simp add: shouldReconnect_def)
next
  case False
  assume scheduled:
    "map_of (reconnectTimeouts (onclose url options cid code wasClean rnd s)) cid \<noteq> None
     \<or> timer_seq (onclose url options cid code wasClean rnd s) \<noteq> timer_seq s"
  from onclose_not_eligible [OF False] scheduled show ?thesis by simp
qed

theorem reconnect_scheduled_only_if_eligible_witness:
  "map_of (reconnectTimeouts
      (onclose room_url reconnecting ''collaboration/r1_1000'' 1011 False 0 connected_once))
      ''collaboration/r1_1000'' = Some 1
   \<and> enableReconnect reconnecting = Some True \<and> (1011::nat) \<noteq> 1000 \<and> (1011::nat) \<noteq> 1001
   \<and> (1011::nat) \<noteq> 1006 \<and> \<not> False"
proof -
  have e: "shouldReconnect reconnecting 1011 False"
    by (simp add: shouldReconnect_def reconnecting_def)
  have a: "stored_attempts ''collaboration/r1_1000'' connected_once < maxReconnectAttempts"
    by (simp add: stored_attempts_def connected_once_eq maxReconnectAttempts_def)
  have t: "map_of (reconnectTimeouts
      (onclose room_url reconnecting ''collaboration/r1_1000'' 1011 False 0 connected_once))
      ''collaboration/r1_1000'' = Some 1"
    using onclose_schedules(1) [OF e a, of room_url 0] by (simp add: connected_once_eq)
  then have h: "map_of (reconnectTimeouts
       (onclose room_url reconnecting ''collaboration/r1_1000'' 1011 False 0 connected_once))
       ''collaboration/r1_1000'' \<noteq> None
     \<or> timer_seq (onclose room_url reconnecting ''collaboration/r1_1000'' 1011 False 0
          connected_once) \<noteq> timer_seq connected_once"
    by simp
  from reconnect_scheduled_only_if_eligible [OF h] t show ?thesis by simp
qed

text \<open>
  Claim C4, as the code has it. For an eligible close with stored attempt count
  \<open>n < 5\<close> and \<open>Math.random()\<close> in \<open>[0, 1)\<close>, the scheduled delay is
  \<open>min(2000 * 2^n, 30000) + j\<close> with jitter \<open>0 \<le> j < 2000\<close>; it satisfies
  \<open>min(2000 * 2^n, 30000) \<le> delay \<le> min(2000 * 2^n, 30000) + 2000\<close>, and it is at
  least \<open>2000 * 2^n\<close> for \<open>n \<le> 3\<close>. The sum is taken over the reals; the two
  bounds are not strict, so they hold of the rounded sum of the code as well.
\<close>

theorem reconnect_delay_scheduled:
  assumes "shouldReconnect options code wasClean"
    and "stored_attempts cid s = n" and "n < maxReconnectAttempts"
    and "0 \<le> rnd" and "rnd < 1"
  shows "\<exists>t task.
           map_of (reconnectTimeouts (onclose url options cid code wasClean rnd s)) cid = Some t
           \<and> map_of (timers (onclose url options cid code wasClean rnd s)) t = Some task
           \<and> t_delay task = min (2000 * 2 ^ n) 30000 + jitter rnd
           \<and> 0 \<le> jitter rnd \<and> jitter rnd < 2000
           \<and> min (2000 * 2 ^ n) 30000 \<le> t_delay task
           \<and> t_delay task \<le> min (2000 * 2 ^ n) 30000 + 2000
           \<and> (n \<le> 3 \<longrightarrow> 2000 * 2 ^ n \<le> t_delay task)"
proof -
  let ?s' = "onclose url options cid code wasClean rnd s"
  let ?task = "\<lparr>t_connectionId = cid, t_url = url, t_options = options,
                 t_attempts = n, t_delay = reconnect_delay n rnd\<rparr>"
  have lt: "stored_attempts cid s < maxReconnectAttempts" using assms(2,3) by simp
  have 1: "map_of (reconnectTimeouts ?s') cid = Some (Suc (timer_seq s))"
    by (rule onclose_schedules(1) [OF assms(1) lt])
  have 2: "map_of (timers ?s') (Suc (timer_seq s)) = Some ?task"
    using onclose_schedules(2) [OF assms(1) lt, of url rnd] assms(2) by simp
  note b = delay_bounds [OF assms(4,5)]
  have u: "n \<le> 3 \<longrightarrow> 2000 * 2 ^ n \<le> reconnect_delay n rnd"
    using delay_uncapped [OF _ assms(4)] by blast
  show ?thesis
    apply (rule exI [of _ "Suc (timer_seq s)"])
    apply (rule exI [of _ ?task])
    using 1 2 b(2,3,4,5) u b(1) [of n] by simp
qed

theorem reconnect_delay_scheduled_witness:
  "shouldReconnect reconnecting 1011 False
   \<and> stored_attempts ''collaboration/r1_1000'' connected_once = 0
   \<and> (0::nat) < maxReconnectAttempts \<and> (0::real) \<le> 1 / 2 \<and> (1 / 2 :: real) < 1
   \<and> (\<exists>t task.
         map_of (reconnectTimeouts
           (onclose room_url reconnecting ''collaboration/r1_1000'' 1011 False (1 / 2)
              connected_once)) ''collaboration/r1_1000'' = Some t
         \<and> map_of (timers
           (onclose room_url reconnecting ''collaboration/r1_1000'' 1011 False (1 / 2)
              connected_once)) t = Some task
         \<and> t_delay task = 3000)"
proof -
  have e: "shouldReconnect reconnecting 1011 False"
    by (simp add: shouldReconnect_def reconnecting_def)
  have a: "stored_attempts ''collaboration/r1_1000'' connected_once = 0"
    by (simp add: stored_attempts_def connected_once_eq)
  have m: "(0::nat) < maxReconnectAttempts" by (simp add: maxReconnectAttempts_def)
  have r: "(0::real) \<le> 1 / 2" "(1 / 2 :: real) < 1" by simp_all
  have j: "min (2000 * 2 ^ 0) 30000 + jitter (1 / 2) = 3000" by (simp add: jitter_def)
  from reconnect_delay_scheduled [OF e a m r, of room_url] e a m r j show ?thesis by auto
qed

text \<open>
  Claim C4, as the specification states it, fails at the last attempt: with stored
  attempt count 4 and jitter 0 the delay is the cap, 30000, below \<open>2000 * 2^4 = 32000\<close>.
\<close>

theorem reconnect_delay_lower_bound_counterexample:
  "(4::nat) < maxReconnectAttempts \<and> 0 \<le> jitter 0 \<and> jitter 0 < 2000
   \<and> reconnect_delay 4 0 = min (2000 * 2 ^ 4) 30000 + jitter 0
   \<and> \<not> (2000 * 2 ^ 4 \<le> reconnect_delay 4 0)"
  by (simp add: maxReconnectAttempts_def jitter_def reconnect_delay_def exponentialDelay_def
      baseReconnectDelay_def)

lemma closed_once_eq:
  "closed_once =
     \<lparr>connections = [], reconnectTimeouts = [(''collaboration/r1_1000'', 1)],
      reconnectAttempts = [(''collaboration/r1_1000'', 0)],
      sockets = [\<lparr>ws_url = room_url, readyState = CLOSED,
                  ws_connectionId = ''collaboration/r1_1000'', ws_options = reconnecting\<rparr>],
      timers = [(1, \<lparr>t_connectionId = ''collaboration/r1_1000'', t_url = room_url,
                     t_options = reconnecting, t_attempts = 0, t_delay = 3000\<rparr>)],
      timer_seq = 1, effects = []\<rparr>"
  by (simp add: closed_once_def close_event_def connected_once_eq set_ready_def onclose_def
      shouldReconnect_def reconnecting_def call_opt_def stored_attempts_def
      maxReconnectAttempts_def setTimeout_def reconnect_delay_def exponentialDelay_def
      baseReconnectDelay_def jitter_def Let_def)

lemma reconnect_task_noop:
  "map_of (reconnectAttempts s) (t_connectionId task) = None \<Longrightarrow>
   reconnect_task valid now task s = s"
  by (simp add: reconnect_task_def)

lemma disconnect_attempts: "map_of (reconnectAttempts (disconnect cid s)) cid = None"
  by (simp add: disconnect_def Let_def delete_conv')

lemma disconnect_timeouts: "map_of (reconnectTimeouts (disconnect cid s)) cid = None"
  by (simp add: disconnect_def Let_def delete_conv' socket_close_def emit_effect_def
      set_ready_def clearTimeout_def split: option.splits)

lemma disconnect_timers:
  "map_of (reconnectTimeouts s) cid = Some t \<Longrightarrow> map_of (timers (disconnect cid s)) t = None"
  by (simp add: disconnect_def Let_def delete_conv' socket_close_def emit_effect_def
      set_ready_def clearTimeout_def split: option.splits)

lemma disconnect_effects:
  "map_of (reconnectTimeouts s) cid = Some t \<Longrightarrow>
   ClearTimeout t \<in> set (effects (disconnect cid s))"
  by (simp add: disconnect_def Let_def delete_conv' socket_close_def emit_effect_def
      set_ready_def clearTimeout_def split: option.splits)

text \<open>
  Claim C5. When a reconnect timer \<open>t\<close> is registered for a connection id,
  \<open>disconnect(id)\<close> clears it (it is no longer pending, so the host never runs it) and
  removes the timer entry and the retry-attempt entry of the id. A retry task of that id
  that runs all the same finds no attempt entry and does nothing: no counter is
  incremented and \<open>connect\<close> is not called, the state stays as \<open>disconnect\<close> left it.
\<close>

theorem disconnect_aborts_pending_reconnect:
  assumes "map_of (reconnectTimeouts s) cid = Some t"
  shows "ClearTimeout t \<in> set (effects (disconnect cid s))
       \<and> map_of (timers (disconnect cid s)) t = None
       \<and> map_of (reconnectTimeouts (disconnect cid s)) cid = None
       \<and> map_of (reconnectAttempts (disconnect cid s)) cid = None
       \<and> fire_timer valid now t (disconnect cid s) = disconnect cid s
       \<and> (\<forall>task. t_connectionId task = cid \<longrightarrow>
             reconnect_task valid now task (disconnect cid s) = disconnect cid s)"
  using disconnect_effects [OF assms] disconnect_timers [OF assms]
    disconnect_timeouts [of cid s] disconnect_attempts [of cid s]
  by (simp add: fire_timer_def reconnect_task_noop)

theorem disconnect_aborts_pending_reconnect_witness:
  "map_of (reconnectTimeouts closed_once) ''collaboration/r1_1000'' = Some 1
   \<and> map_of (timers closed_once) 1 \<noteq> None
   \<and> ClearTimeout 1 \<in> set (effects (disconnect ''collaboration/r1_1000'' closed_once))
   \<and> map_of (timers (disconnect ''collaboration/r1_1000'' closed_once)) 1 = None
   \<and> map_of (reconnectAttempts (disconnect ''collaboration/r1_1000'' closed_once))
        ''collaboration/r1_1000'' = None
   \<and> fire_timer any_url 5000 1 (disconnect ''collaboration/r1_1000'' closed_once)
        = disconnect ''collaboration/r1_1000'' closed_once
   \<and> reconnect_task any_url 5000
        \<lparr>t_connectionId = ''collaboration/r1_1000'', t_url = room_url,
          t_options = reconnecting, t_attempts = 0, t_delay = 3000\<rparr>
        (disconnect ''collaboration/r1_1000'' closed_once)
        = disconnect ''collaboration/r1_1000'' closed_once"
proof -
  have h: "map_of (reconnectTimeouts closed_once) ''collaboration/r1_1000'' = Some 1"
    by (simp add: closed_once_eq)
  have p: "map_of (timers closed_once) 1 \<noteq> None"
    by (simp add: closed_once_eq)
  from disconnect_aborts_pending_reconnect [OF h, of any_url 5000] h p show ?thesis by simp
qed

subsection \<open>One connection per endpoint\<close>

lemma string_of_nat_2000: "string_of_nat 2000 = ''2000''"
  by (simp add: string_of_nat.simps digit_char_def)

lemma url_path_schema: "url_path schema_url = ''collaboration/my_schema''"
  by (simp add: url_path_def schema_url_def slice_last_def)

text \<open>\<open>id.split('_')[0]\<close> is the id up to its first underscore.\<close>

lemma first_part_split: "first_part (js_split c s) = takeWhile (\<lambda>x. x \<noteq> c) s"
  by (induction s) (auto simp: first_part_def split: list.splits)

lemma id_path_generated:
  "id_path (key @ ''_'' @ suffix) = takeWhile (\<lambda>x. x \<noteq> CHR ''_'') key"
proof (cases "CHR ''_'' \<in> set key")
  case True
  then show ?thesis
    by (simp add: id_path_def first_part_split takeWhile_append1)
next
  case False
  then have all: "\<forall>x\<in>set key. x \<noteq> CHR ''_''" by auto
  then have tw: "takeWhile (\<lambda>x. x \<noteq> CHR ''_'') key = key" by simp
  have "id_path (key @ ''_'' @ suffix) = key"
    using all by (simp add: id_path_def first_part_split takeWhile_append2)
  then show ?thesis by (simp only: tw)
qed

text \<open>The filter of \<open>connect\<close> recognises an id that \<open>connect\<close> made for an endpoint
  key exactly when the key has no underscore.\<close>

lemma id_path_matches_iff:
  "id_path (key @ ''_'' @ suffix) = key \<longleftrightarrow> CHR ''_'' \<notin> set key"
proof
  assume "id_path (key @ ''_'' @ suffix) = key"
  then have "takeWhile (\<lambda>x. x \<noteq> CHR ''_'') key = key" by (simp only: id_path_generated)
  then have "\<forall>x\<in>set key. x \<noteq> CHR ''_''" by (simp only: takeWhile_eq_all_conv)
  then show "CHR ''_'' \<notin> set key" by auto
next
  assume "CHR ''_'' \<notin> set key"
  then have "\<forall>x\<in>set key. x \<noteq> CHR ''_''" by auto
  then have "takeWhile (\<lambda>x. x \<noteq> CHR ''_'') key = key" by simp
  then show "id_path (key @ ''_'' @ suffix) = key" by (simp only: id_path_generated)
qed

text \<open>For room \<open>r1\<close> the second \<open>connect\<close> does replace the first record: its socket
  is closed with code 1000 and its attempt entry removed.\<close>

lemma connect_twice_replaces:
  "connections (fst (connect any_url 2000 room_url reconnecting connected_once))
     = [(''collaboration/r1_2000'', 1)]
   \<and> effects (fst (connect any_url 2000 room_url reconnecting connected_once))
     = [SocketClose 0 1000 ''Replacing with new connection'']
   \<and> reconnectAttempts (fst (connect any_url 2000 room_url reconnecting connected_once))
     = [(''collaboration/r1_2000'', 0)]"
  by (simp add: connect_def url_path_room string_of_nat_2000 any_url_def connected_once_eq
      new_socket_def Let_def id_path_def first_part_def close_existing_def socket_close_def
      emit_effect_def ready_of_def set_ready_def)

text \<open>
  Claim C1 fails on the code. \<open>connect\<close> finds the records to replace by comparing
  \<open>id.split('_')[0]\<close> with the endpoint key, and an id is the key, an underscore and
  the time: when the key itself has an underscore the comparison never holds. Two
  \<open>connect\<close> calls for room \<open>my_schema\<close> leave two records with the same endpoint
  key in the map; the first socket is not closed (no effect is recorded, both sockets are
  still connecting).
\<close>

theorem connect_twice_underscore_key_keeps_both:
  "url_path schema_url = ''collaboration/my_schema''
   \<and> id_path ''collaboration/my_schema_1000'' = ''collaboration/my''
   \<and> connections connected_twice
       = [(''collaboration/my_schema_1000'', 0), (''collaboration/my_schema_2000'', 1)]
   \<and> map ws_url (sockets connected_twice) = [schema_url, schema_url]
   \<and> map readyState (sockets connected_twice) = [CONNECTING, CONNECTING]
   \<and> reconnectAttempts connected_twice
       = [(''collaboration/my_schema_1000'', 0), (''collaboration/my_schema_2000'', 0)]
   \<and> effects connected_twice = []"
  by (simp add: connected_twice_def connect_def url_path_schema string_of_nat_1000
      string_of_nat_2000 any_url_def new_service_def new_socket_def Let_def id_path_def
      first_part_def)

subsection \<open>Retries\<close>

lemma close_existing_sockets: "length (sockets (close_existing e s)) = length (sockets s)"
  by (simp add: close_existing_def Let_def socket_close_def emit_effect_def set_ready_def
      clearTimeout_def split: option.splits)

lemma close_existing_timer_seq: "timer_seq (close_existing e s) = timer_seq s"
  by (simp add: close_existing_def Let_def socket_close_def emit_effect_def set_ready_def
      clearTimeout_def split: option.splits)

lemma fold_close_existing:
  "length (sockets (fold close_existing es s)) = length (sockets s)
   \<and> timer_seq (fold close_existing es s) = timer_seq s"
  by (induction es arbitrary: s) (simp_all add: close_existing_sockets close_existing_timer_seq)

text \<open>Every successful \<open>connect\<close> registers a new socket under an id whose attempt
  count is 0, whatever was stored before.\<close>

lemma connect_fresh:
  assumes "valid url"
  shows "length (sockets (fst (connect valid now url options s))) = Suc (length (sockets s))"
    and "timer_seq (fst (connect valid now url options s)) = timer_seq s"
    and "ws_url (sockets (fst (connect valid now url options s)) ! length (sockets s)) = url"
    and "ws_options (sockets (fst (connect valid now url options s)) ! length (sockets s))
           = options"
    and "map_of (reconnectAttempts (fst (connect valid now url options s)))
           (ws_connectionId (sockets (fst (connect valid now url options s)) ! length (sockets s)))
           = Some 0"
  using assms
    fold_close_existing [of "filter (\<lambda>e. id_path (fst e) = url_path url) (connections s)" s]
  by (simp_all add: connect_def Let_def new_socket_def update_conv' nth_append)

lemma connect_valid:
  "valid url \<Longrightarrow>
   snd (connect valid now url options s) = Inr (url_path url @ ''_'' @ string_of_nat now)"
  by (simp add: connect_def Let_def split: prod.splits)

lemma onclose_schedules_frame:
  assumes "shouldReconnect options code wasClean"
    and "stored_attempts cid s < maxReconnectAttempts"
  shows "sockets (onclose url options cid code wasClean rnd s) = sockets s"
    and "timer_seq (onclose url options cid code wasClean rnd s) = Suc (timer_seq s)"
    and "reconnectAttempts (onclose url options cid code wasClean rnd s) = reconnectAttempts s"
  using assms
  by (simp_all add: onclose_def Let_def setTimeout_def stored_attempts_def call_opt_def
      emit_effect_def clearTimeout_def split: option.splits)

lemma retry_inv_close:
  assumes "retry_inv k s"
  shows "map_of (timers (close_event k 1011 False rnd s)) (Suc k)
           = Some \<lparr>t_connectionId = ws_connectionId (sockets s ! k), t_url = room_url,
                   t_options = reconnecting, t_attempts = 0, t_delay = reconnect_delay 0 rnd\<rparr>"
    and "length (sockets (close_event k 1011 False rnd s)) = Suc k"
    and "timer_seq (close_event k 1011 False rnd s) = Suc k"
    and "map_of (reconnectAttempts (close_event k 1011 False rnd s))
           (ws_connectionId (sockets s ! k)) = Some 0"
proof -
  let ?w = "sockets s ! k"
  let ?s1 = "set_ready k CLOSED s"
  from assms have len: "length (sockets s) = Suc k" and seq: "timer_seq s = k"
    and url: "ws_url ?w = room_url" and opts: "ws_options ?w = reconnecting"
    and att: "map_of (reconnectAttempts s) (ws_connectionId ?w) = Some 0"
    by (simp_all add: retry_inv_def)
  have ce: "close_event k 1011 False rnd s
              = onclose room_url reconnecting (ws_connectionId ?w) 1011 False rnd ?s1"
    using len url opts by (simp add: close_event_def Let_def)
  have e: "shouldReconnect reconnecting 1011 False"
    by (simp add: shouldReconnect_def reconnecting_def)
  have s1: "timer_seq ?s1 = k" "length (sockets ?s1) = Suc k"
    "reconnectAttempts ?s1 = reconnectAttempts s"
    using len seq by (simp_all add: set_ready_def)
  have a: "stored_attempts (ws_connectionId ?w) ?s1 < maxReconnectAttempts"
    using att s1(3) by (simp add: stored_attempts_def maxReconnectAttempts_def)
  have a0: "stored_attempts (ws_connectionId ?w) ?s1 = 0"
    using att s1(3) by (simp add: stored_attempts_def)
  show "map_of (timers (close_event k 1011 False rnd s)) (Suc k)
           = Some \<lparr>t_connectionId = ws_connectionId (sockets s ! k), t_url = room_url,
                   t_options = reconnecting, t_attempts = 0, t_delay = reconnect_delay 0 rnd\<rparr>"
    using onclose_schedules(2) [OF e a, of room_url rnd] s1(1) a0 by (simp add: ce)
  show "length (sockets (close_event k 1011 False rnd s)) = Suc k"
    using onclose_schedules_frame(1) [OF e a, of room_url rnd] s1(2) by (simp add: ce)
  show "timer_seq (close_event k 1011 False rnd s) = Suc k"
    using onclose_schedules_frame(2) [OF e a, of room_url rnd] s1(1) by (simp add: ce)
  show "map_of (reconnectAttempts (close_event k 1011 False rnd s))
           (ws_connectionId (sockets s ! k)) = Some 0"
    using onclose_schedules_frame(3) [OF e a, of room_url rnd] s1(3) att by (simp add: ce)
qed

lemma retry_inv_step:
  assumes "retry_inv k s"
  shows "retry_inv (Suc k) (fire_timer any_url now (Suc k) (close_event k 1011 False rnd s))"
proof -
  let ?c = "close_event k 1011 False rnd s"
  let ?cid = "ws_connectionId (sockets s ! k)"
  let ?s1 = "?c\<lparr>timers := AList.delete (Suc k) (timers ?c),
                reconnectAttempts := AList.update ?cid (Suc 0) (reconnectAttempts ?c)\<rparr>"
  note c = retry_inv_close [OF assms, of rnd]
  have v: "any_url room_url" by (simp add: any_url_def)
  have f: "fire_timer any_url now (Suc k) ?c = fst (connect any_url now room_url reconnecting ?s1)"
    using c(1,4) connect_valid [of any_url room_url now reconnecting ?s1, OF v]
    by (auto simp add: fire_timer_def reconnect_task_def Let_def split: prod.splits sum.splits)
  have l: "length (sockets ?s1) = Suc k" "timer_seq ?s1 = Suc k" using c(2,3) by simp_all
  show ?thesis
    using connect_fresh [of any_url room_url now reconnecting ?s1, OF v] l
    unfolding f retry_inv_def by simp
qed

lemma retry_inv_failed_attempts: "retry_inv k (failed_attempts k)"
proof (induction k)
  case 0
  show ?case by (simp add: retry_inv_def connected_once_eq)
next
  case (Suc k)
  then show ?case by (simp add: retry_inv_step)
qed

lemma onopen_resets: "map_of (reconnectAttempts (onopen cid options s)) cid = Some 0"
  by (simp add: onopen_def call_opt_def emit_effect_def update_conv' split: option.splits)

text \<open>
  Claim C3 fails on the code. The attempt count is stored under the connection id, and
  the retry task calls \<open>connect\<close>, which makes a new id and stores 0 for it. So the
  close handler of the reconnected socket reads 0 again: after any number \<open>k\<close> of
  failed attempts (5, 6, any; the service has then opened \<open>k + 1\<close> sockets), the next
  unexpected close still schedules a reconnect, as attempt 1 of 5 with the first delay
  of 2000 ms. The bound of 5 is never reached.
\<close>

theorem reconnect_attempts_not_bounded:
  "length (sockets (failed_attempts k)) = Suc k
   \<and> (\<exists>task. map_of (timers (close_event k 1011 False 0 (failed_attempts k))) (Suc k)
                 = Some task
          \<and> t_url task = room_url \<and> t_attempts task = 0 \<and> t_delay task = 2000)"
  using retry_inv_close(1) [OF retry_inv_failed_attempts, of k 0]
    retry_inv_failed_attempts [of k]
  by (simp add: retry_inv_def reconnect_delay_def exponentialDelay_def baseReconnectDelay_def
      jitter_def)

section \<open>Properties of the collaboration service\<close>

subsection \<open>Inbound cursor updates\<close>

lemma string_of_nat_digits: "set (string_of_nat n) \<subseteq> set ''0123456789''"
proof (induction n rule: string_of_nat.induct)
  case (1 n)
  have d: "digit_char k \<in> set ''0123456789''" if "k < 10" for k
    using that unfolding digit_char_def by (intro nth_mem) simp
  show ?case
  proof (cases "n < 10")
    case True
    then show ?thesis using d [of n] by (subst string_of_nat.simps) simp
  next
    case False
    then show ?thesis using 1 d [of "n mod 10"] by (subst string_of_nat.simps) simp
  qed
qed

lemma userId_no_index: "''userId'' \<notin> set (index_keys n)"
proof
  assume "''userId'' \<in> set (index_keys n)"
  then obtain i where "string_of_nat i = ''userId''" by (auto simp: index_keys_def)
  with string_of_nat_digits [of i] show False by auto
qed

lemma lookup_zip_index: "fmlookup (fmap_of_list (zip (index_keys n) xs)) ''userId'' = None"
proof -
  have "''userId'' \<notin> fst ` set (zip (index_keys n) xs)"
    using userId_no_index [of n] by (auto dest: set_zip_leftD)
  then show ?thesis by (simp add: fmlookup_of_list map_of_eq_None_iff)
qed

text \<open>The check of the code accepts exactly the payloads the specification describes.\<close>

lemma valid_cursor_iff: "valid_cursor d \<longleftrightarrow> object_with_userId d"
proof (cases d)
  case (JObj m)
  show ?thesis
  proof (cases "fmlookup m ''userId''")
    case None
    with JObj show ?thesis by (simp add: valid_cursor_def get_prop_def)
  next
    case (Some u)
    with JObj show ?thesis by (cases u) (simp_all add: valid_cursor_def get_prop_def)
  qed
next
  case (JArr xs)
  then show ?thesis by (simp add: valid_cursor_def get_prop_def lookup_zip_index)
qed (simp_all add: valid_cursor_def get_prop_def)

lemma get_prop_nonnull:
  "get_prop v k = Inr x \<Longrightarrow> get_prop v k' = Inr (get_prop_opt v k')"
  by (cases v) (simp_all add: get_prop_def get_prop_opt_def)

lemma invoked_append: "invoked (xs @ ys) = invoked xs @ invoked ys"
  by (induction xs rule: invoked.induct) simp_all

text \<open>
  Claim C6. For an inbound envelope of type \<open>cursor_update\<close>, \<open>handleMessage\<close> raises
  no exception. When the payload \<open>data\<close> is an object with a non-empty string
  \<open>userId\<close> it is emitted on \<open>cursor_update\<close>; otherwise the envelope is dropped with
  a warning, which invokes no handler and leaves the subscriptions as they were.
\<close>

theorem cursor_update_forwarded_iff_object_with_userId:
  assumes "get_prop message ''type'' = Inr (JStr ''cursor_update'')"
  shows "handleMessage throws message c =
           Inr (if object_with_userId (get_prop_opt message ''data'')
                then emit throws ''cursor_update'' (get_prop_opt message ''data'') c
                else log_effect (ConsoleWarn ''Invalid cursor_update message structure'') c)
       \<and> invoked (trace (log_effect (ConsoleWarn ''Invalid cursor_update message structure'') c))
           = invoked (trace c)
       \<and> eventHandlers (log_effect (ConsoleWarn ''Invalid cursor_update message structure'') c)
           = eventHandlers c"
  using assms get_prop_nonnull [OF assms, of "''data''"]
  by (simp add: handleMessage_def bind_err_def valid_cursor_iff log_effect_def invoked_append)

theorem cursor_update_forwarded_iff_object_with_userId_witness:
  "get_prop cursor_without_userId ''type'' = Inr (JStr ''cursor_update'')
   \<and> handlers_of ''cursor_update'' subscribed = [7]
   \<and> \<not> object_with_userId (get_prop_opt cursor_without_userId ''data'')
   \<and> handleMessage never_throws cursor_without_userId subscribed
       = Inr (log_effect (ConsoleWarn ''Invalid cursor_update message structure'') subscribed)
   \<and> invoked (trace (log_effect (ConsoleWarn ''Invalid cursor_update message structure'')
        subscribed)) = invoked (trace subscribed)
   \<and> get_prop cursor_with_userId ''type'' = Inr (JStr ''cursor_update'')
   \<and> handleMessage never_throws cursor_with_userId subscribed
       = Inr (emit never_throws ''cursor_update''
               (JObj (fmap_of_list [(''userId'', JStr ''u1'')])) subscribed)
   \<and> invoked (trace (emit never_throws ''cursor_update''
        (JObj (fmap_of_list [(''userId'', JStr ''u1'')])) subscribed))
       = [(7, JObj (fmap_of_list [(''userId'', JStr ''u1'')]))]"
proof -
  have h: "get_prop cursor_without_userId ''type'' = Inr (JStr ''cursor_update'')"
    by (simp add: cursor_without_userId_def get_prop_def fmlookup_of_list)
  have s: "handlers_of ''cursor_update'' subscribed = [7]"
    by (simp add: subscribed_def on_event_def new_collab_def handlers_of_def Let_def)
  have n: "\<not> object_with_userId (get_prop_opt cursor_without_userId ''data'')"
    by (simp add: cursor_without_userId_def get_prop_opt_def get_prop_def fmlookup_of_list)
  have h': "get_prop cursor_with_userId ''type'' = Inr (JStr ''cursor_update'')"
    by (simp add: cursor_with_userId_def get_prop_def fmlookup_of_list)
  have d: "get_prop_opt cursor_with_userId ''data''
             = JObj (fmap_of_list [(''userId'', JStr ''u1'')])"
    by (simp add: cursor_with_userId_def get_prop_opt_def get_prop_def fmlookup_of_list)
  have y: "object_with_userId (JObj (fmap_of_list [(''userId'', JStr ''u1'')]))"
    by (simp add: fmlookup_of_list)
  have i: "invoked (trace (emit never_throws ''cursor_update''
        (JObj (fmap_of_list [(''userId'', JStr ''u1'')])) subscribed))
       = [(7, JObj (fmap_of_list [(''userId'', JStr ''u1'')]))]"
    by (simp add: emit_def subscribed_def on_event_def new_collab_def handlers_of_def
        run_handler_def never_throws_def log_effect_def Let_def)
  from cursor_update_forwarded_iff_object_with_userId [OF h, of never_throws subscribed]
    cursor_update_forwarded_iff_object_with_userId [OF h', of never_throws subscribed]
    h s n h' d y i
  show ?thesis by simp
qed

subsection \<open>Conflict resolution\<close>

text \<open>
  Claim C7. \<open>resolveConflict(local, remote)\<close> returns its second argument, whatever
  the first is.
\<close>

theorem resolveConflict_returns_remote: "resolveConflict localChange remoteChange = remoteChange"
  by (simp add: resolveConflict_def)

lemma merge_shape:
  assumes "get_prop op1 ''type'' = Inr t1" and "get_prop op2 ''type'' = Inr t2"
  shows "mergeTableOperations parse op1 op2 =
     Inr (JObj (fmupd ''data''
              (JObj (fmupd ''lastModified''
                       (num_js (math_max (date_getTime parse (get_prop_opt op1 ''timestamp''))
                                         (date_getTime parse (get_prop_opt op2 ''timestamp''))))
                       (own_props (get_prop_opt op1 ''data'')
                          ++\<^sub>f own_props (get_prop_opt op2 ''data''))))
              (own_props op1)))"
  by (simp add: mergeTableOperations_def bind_err_def get_prop_nonnull [OF assms(1)]
      get_prop_nonnull [OF assms(2)])

lemma max_time:
  "num_js (math_max a b) = (case (a, b) of (Some x, Some y) \<Rightarrow> JNum (max x y) | _ \<Rightarrow> JNaN)"
  by (simp add: num_js_def math_max_def split: option.splits)

lemma op_later_props:
  "get_prop op_later ''type'' = Inr (JStr ''table_update'')"
  "get_prop_opt op_later ''tableId'' = JStr ''t1''"
  "get_prop_opt op_later ''timestamp'' = JNum 2000"
  "get_prop_opt op_later ''data'' = JObj (fmap_of_list [(''name'', JStr ''new'')])"
  "own_props op_later = fmap_of_list
       [(''type'', JStr ''table_update''), (''tableId'', JStr ''t1''),
        (''timestamp'', JNum 2000),
        (''data'', JObj (fmap_of_list [(''name'', JStr ''new'')]))]"
  by (simp_all add: op_later_def get_prop_def get_prop_opt_def fmlookup_of_list)

lemma op_earlier_props:
  "get_prop op_earlier ''type'' = Inr (JStr ''table_update'')"
  "get_prop_opt op_earlier ''tableId'' = JStr ''t1''"
  "get_prop_opt op_earlier ''timestamp'' = JNum 1000"
  "get_prop_opt op_earlier ''data'' = JObj (fmap_of_list [(''name'', JStr ''old'')])"
  by (simp_all add: op_earlier_def get_prop_def get_prop_opt_def fmlookup_of_list)

lemma date_num:
  "date_getTime parse (JNum 2000) = Some 2000" "date_getTime parse (JNum 1000) = Some 1000"
  by (simp_all add: date_getTime_def time_clip_def)

text \<open>
  Claim C8, as the code has it. For two operations that are objects: when both have type
  \<open>table_update\<close> and their \<open>tableId\<close>s are strictly equal (equal primitives, or one
  and the same object), the result is the first operation with
  its \<open>data\<close> replaced by the shallow union of both payloads, in which a key present
  in both has the value of the second operation, whatever the timestamps, and
  \<open>lastModified\<close> is the maximum of the two timestamps (\<open>NaN\<close> when one is no date);
  otherwise the first operation is returned unchanged.
\<close>

theorem transformOperation_merge_second_wins:
  assumes "get_prop operation ''type'' = Inr t1"
    and "get_prop otherOperation ''type'' = Inr t2"
  shows "if strict_eq t1 (JStr ''table_update'') \<and> strict_eq t2 (JStr ''table_update'')
            \<and> strict_eq_ref same_ref (get_prop_opt operation ''tableId'')
                 (get_prop_opt otherOperation ''tableId'')
         then \<exists>r d. transformOperation same_ref parse operation otherOperation = Inr (JObj r)
                \<and> (\<forall>k. fmlookup r k =
                      (if k = ''data'' then Some (JObj d) else fmlookup (own_props operation) k))
                \<and> (\<forall>k. fmlookup d k =
                      (if k = ''lastModified''
                       then Some (case (date_getTime parse (get_prop_opt operation ''timestamp''),
                                        date_getTime parse
                                          (get_prop_opt otherOperation ''timestamp''))
                                  of (Some x, Some y) \<Rightarrow> JNum (max x y) | _ \<Rightarrow> JNaN)
                       else (case fmlookup (own_props (get_prop_opt otherOperation ''data'')) k of
                               Some v \<Rightarrow> Some v
                             | None \<Rightarrow>
                                 fmlookup (own_props (get_prop_opt operation ''data'')) k)))
         else transformOperation same_ref parse operation otherOperation = Inr operation"
proof -
  note p1 = get_prop_nonnull [OF assms(1)] and p2 = get_prop_nonnull [OF assms(2)]
  show ?thesis
  proof (cases "strict_eq t1 (JStr ''table_update'') \<and> strict_eq t2 (JStr ''table_update'')
            \<and> strict_eq_ref same_ref (get_prop_opt operation ''tableId'')
                 (get_prop_opt otherOperation ''tableId'')")
    case True
    then have "transformOperation same_ref parse operation otherOperation
                 = mergeTableOperations parse operation otherOperation"
      using assms by (simp add: transformOperation_def bind_err_def p1 p2)
    then show ?thesis
      using True
      by (simp add: merge_shape [OF assms] max_time fmlookup_dom_iff split: option.splits)
  next
    case False
    then show ?thesis
      using assms by (auto simp add: transformOperation_def bind_err_def p1 p2)
  qed
qed

theorem transformOperation_merge_second_wins_witness:
  "get_prop op_later ''type'' = Inr (JStr ''table_update'')
   \<and> get_prop op_earlier ''type'' = Inr (JStr ''table_update'')
   \<and> get_prop op_other_table ''type'' = Inr (JStr ''table_update'')
   \<and> get_prop op_array_id ''type'' = Inr (JStr ''table_update'')
   \<and> (\<exists>r d. transformOperation never_shared no_parse op_later op_earlier = Inr (JObj r)
         \<and> fmlookup r ''data'' = Some (JObj d)
         \<and> fmlookup r ''tableId'' = Some (JStr ''t1'')
         \<and> fmlookup d ''lastModified'' = Some (JNum 2000)
         \<and> fmlookup d ''name'' = Some (JStr ''old''))
   \<and> transformOperation never_shared no_parse op_later op_other_table = Inr op_later
   \<and> (\<exists>r d. transformOperation always_shared no_parse op_array_id op_array_id = Inr (JObj r)
         \<and> fmlookup r ''data'' = Some (JObj d)
         \<and> fmlookup d ''lastModified'' = Some (JNum 4000))
   \<and> transformOperation never_shared no_parse op_array_id op_array_id = Inr op_array_id"
proof -
  note h1 = op_later_props(1) and h2 = op_earlier_props(1)
  have h3: "get_prop op_other_table ''type'' = Inr (JStr ''table_update'')"
    by (simp add: op_other_table_def get_prop_def fmlookup_of_list)
  have i3: "get_prop_opt op_other_table ''tableId'' = JStr ''t2''"
    by (simp add: op_other_table_def get_prop_opt_def get_prop_def fmlookup_of_list)
  have h4: "get_prop op_array_id ''type'' = Inr (JStr ''table_update'')"
    by (simp add: op_array_id_def get_prop_def fmlookup_of_list)
  have i4: "get_prop_opt op_array_id ''tableId'' = JArr [JStr ''t1'']"
    "get_prop_opt op_array_id ''timestamp'' = JNum 4000"
    by (simp_all add: op_array_id_def get_prop_opt_def get_prop_def fmlookup_of_list)
  have t4: "date_getTime no_parse (JNum 4000) = Some 4000"
    by (simp add: date_getTime_def time_clip_def)
  from transformOperation_merge_second_wins [OF h1 h2, of never_shared no_parse]
  obtain r d where
    r: "transformOperation never_shared no_parse op_later op_earlier = Inr (JObj r)"
    and rk: "\<And>k. fmlookup r k =
               (if k = ''data'' then Some (JObj d) else fmlookup (own_props op_later) k)"
    and dk: "\<And>k. fmlookup d k =
               (if k = ''lastModified''
                then Some (case (date_getTime no_parse (get_prop_opt op_later ''timestamp''),
                                 date_getTime no_parse (get_prop_opt op_earlier ''timestamp''))
                           of (Some x, Some y) \<Rightarrow> JNum (max x y) | _ \<Rightarrow> JNaN)
                else (case fmlookup (own_props (get_prop_opt op_earlier ''data'')) k of
                        Some v \<Rightarrow> Some v
                      | None \<Rightarrow> fmlookup (own_props (get_prop_opt op_later ''data'')) k))"
    by (auto simp: op_later_props(2) op_earlier_props(2) strict_eq_ref_def)
  have "fmlookup r ''data'' = Some (JObj d)" using rk [of "''data''"] by simp
  moreover have "fmlookup r ''tableId'' = Some (JStr ''t1'')"
    using rk [of "''tableId''"] by (simp add: op_later_props(5) fmlookup_of_list)
  moreover have "fmlookup d ''lastModified'' = Some (JNum 2000)"
    using dk [of "''lastModified''"] by (simp add: op_later_props op_earlier_props date_num)
  moreover have "fmlookup d ''name'' = Some (JStr ''old'')"
    using dk [of "''name''"] by (simp add: op_earlier_props fmlookup_of_list)
  ultimately have merged:
    "\<exists>r d. transformOperation never_shared no_parse op_later op_earlier = Inr (JObj r)
         \<and> fmlookup r ''data'' = Some (JObj d)
         \<and> fmlookup r ''tableId'' = Some (JStr ''t1'')
         \<and> fmlookup d ''lastModified'' = Some (JNum 2000)
         \<and> fmlookup d ''name'' = Some (JStr ''old'')"
    using r by blast
  have other: "transformOperation never_shared no_parse op_later op_other_table = Inr op_later"
    using transformOperation_merge_second_wins [OF h1 h3, of never_shared no_parse]
    by (simp add: op_later_props(2) i3 strict_eq_ref_def)
  from transformOperation_merge_second_wins [OF h4 h4, of always_shared no_parse]
  obtain r' d' where
    r': "transformOperation always_shared no_parse op_array_id op_array_id = Inr (JObj r')"
    and rk': "\<And>k. fmlookup r' k =
               (if k = ''data'' then Some (JObj d') else fmlookup (own_props op_array_id) k)"
    and dk': "\<And>k. fmlookup d' k =
               (if k = ''lastModified''
                then Some (case (date_getTime no_parse (get_prop_opt op_array_id ''timestamp''),
                                 date_getTime no_parse (get_prop_opt op_array_id ''timestamp''))
                           of (Some x, Some y) \<Rightarrow> JNum (max x y) | _ \<Rightarrow> JNaN)
                else (case fmlookup (own_props (get_prop_opt op_array_id ''data'')) k of
                        Some v \<Rightarrow> Some v
                      | None \<Rightarrow> fmlookup (own_props (get_prop_opt op_array_id ''data'')) k))"
    by (auto simp: i4 strict_eq_ref_def always_shared_def)
  have "fmlookup r' ''data'' = Some (JObj d')" using rk' [of "''data''"] by simp
  moreover have "fmlookup d' ''lastModified'' = Some (JNum 4000)"
    using dk' [of "''lastModified''"] by (simp add: i4 t4)
  ultimately have shared:
    "\<exists>r d. transformOperation always_shared no_parse op_array_id op_array_id = Inr (JObj r)
         \<and> fmlookup r ''data'' = Some (JObj d)
         \<and> fmlookup d ''lastModified'' = Some (JNum 4000)"
    using r' by blast
  have apart: "transformOperation never_shared no_parse op_array_id op_array_id = Inr op_array_id"
    using transformOperation_merge_second_wins [OF h4 h4, of never_shared no_parse]
    by (simp add: i4 strict_eq_ref_def never_shared_def)
  from merged other shared apart h1 h2 h3 h4 show ?thesis by blast
qed

text \<open>
  Claim C8, as the specification states it, fails: the first operation has the later
  timestamp (2000 against 1000) and both set \<open>name\<close>, yet the merged \<open>name\<close> is the
  one of the second, earlier operation.
\<close>

theorem transformOperation_later_timestamp_counterexample:
  "date_getTime no_parse (get_prop_opt op_later ''timestamp'') = Some 2000
   \<and> date_getTime no_parse (get_prop_opt op_earlier ''timestamp'') = Some 1000
   \<and> get_prop (get_prop_opt op_later ''data'') ''name'' = Inr (JStr ''new'')
   \<and> get_prop (get_prop_opt op_earlier ''data'') ''name'' = Inr (JStr ''old'')
   \<and> bind_err (transformOperation never_shared no_parse op_later op_earlier)
        (\<lambda>r. bind_err (get_prop r ''data'') (\<lambda>d. get_prop d ''name'')) = Inr (JStr ''old'')"
  by (simp add: transformOperation_def strict_eq_ref_def mergeTableOperations_def bind_err_def
      op_later_def
      op_earlier_def get_prop_def get_prop_opt_def fmlookup_of_list date_getTime_def
      time_clip_def num_js_def math_max_def)

subsection \<open>Outbound messages\<close>

text \<open>With a current user none of the four senders throws, and each hands its envelope
  to \<open>send\<close>, which transmits only on a connected session.\<close>

lemma senders_with_user:
  assumes "currentUser c = Some u"
  shows "sendCursorUpdate stamp position c = Inr (send (cursor_message stamp u position) c)"
    and "sendSchemaChange stamp change c
           = Inr (send (schema_change_message stamp (user_id u) change) c)"
    and "sendUserSelection stamp selection c
           = Inr (send (user_selection_message stamp (user_id u) selection) c)"
    and "updatePresence stamp status currentAction c
           = Inr (send (presence_message stamp (user_id u) status currentAction) c)"
  using assms
  by (simp_all add: sendSchemaChange_def sendUserSelection_def updatePresence_def
      sendCursorUpdate_def currentUser_id_def bind_err_def)

lemma send_not_connected:
  "\<not> session_connected c \<Longrightarrow>
   send message c
     = log_effect (ConsoleWarn ''WebSocket not connected or ready, message not sent'') c"
  by (auto simp add: send_def session_connected_def split: option.splits)

lemma send_connected:
  "session_connected c \<Longrightarrow>
   \<exists>cid socket. connectionId c = Some cid \<and> map_of (connections (ws_service c)) cid = Some socket
     \<and> send message c
         = c\<lparr>ws_service := emit_effect (SocketSend socket message) (ws_service c)\<rparr>"
  by (auto simp add: send_def session_connected_def sendMessage_def isConnected_def
      split: option.splits)

text \<open>
  Claim C9 fails on the code. On a session that was never initialized (no current user)
  only \<open>sendCursorUpdate\<close> is a logged no-op: \<open>sendSchemaChange\<close>,
  \<open>sendUserSelection\<close> and \<open>updatePresence\<close> read \<open>this.currentUser!.id\<close> without
  the guard and throw a \<open>TypeError\<close>.
\<close>

theorem senders_throw_when_uninitialized:
  "sendSchemaChange stamp change new_collab = Inl TypeError
   \<and> sendUserSelection stamp selection new_collab = Inl TypeError
   \<and> updatePresence stamp status currentAction new_collab = Inl TypeError
   \<and> sendCursorUpdate stamp position new_collab
       = Inr (log_effect (ConsoleWarn ''Cannot send cursor update: no current user'')
               new_collab)"
  by (simp add: sendSchemaChange_def sendUserSelection_def updatePresence_def
      sendCursorUpdate_def currentUser_id_def bind_err_def new_collab_def)

subsection \<open>The event bus\<close>

lemma handlers_of_on: "handlers_of e (on_event e h c) = handlers_of e c @ [h]"
  by (simp add: on_event_def handlers_of_def Let_def update_conv' split: option.splits)

lemma indexOf_ge: "- 1 \<le> indexOf hs h"
  by (induction hs) (simp_all add: Let_def)

lemma indexOf_absent: "indexOf hs h = - 1 \<longleftrightarrow> h \<notin> set hs"
proof (induction hs)
  case Nil
  show ?case by simp
next
  case (Cons x xs)
  with indexOf_ge [of xs h] show ?case by (auto simp: Let_def)
qed

text \<open>\<open>indexOf\<close> then \<open>splice\<close> removes the first occurrence.\<close>

lemma splice1_indexOf: "h \<in> set hs \<Longrightarrow> splice1 (nat (indexOf hs h)) hs = remove1 h hs"
proof (induction hs)
  case Nil
  then show ?case by simp
next
  case (Cons x xs)
  show ?case
  proof (cases "x = h")
    case True
    then show ?thesis by (simp add: splice1_def)
  next
    case False
    with Cons.prems have m: "h \<in> set xs" by simp
    then have "indexOf xs h \<noteq> - 1" by (simp add: indexOf_absent)
    with indexOf_ge [of xs h] have p: "0 \<le> indexOf xs h" by linarith
    then have "nat (indexOf xs h + 1) = Suc (nat (indexOf xs h))" by simp
    with False Cons.IH [OF m] \<open>indexOf xs h \<noteq> - 1\<close> show ?thesis
      by (simp add: splice1_def Let_def)
  qed
qed

lemma handlers_of_off: "handlers_of e (off_event e h c) = remove1 h (handlers_of e c)"
proof (cases "map_of (eventHandlers c) e")
  case None
  then show ?thesis by (simp add: off_event_def handlers_of_def)
next
  case (Some hs)
  show ?thesis
  proof (cases "h \<in> set hs")
    case True
    then have "indexOf hs h \<noteq> - 1" by (simp add: indexOf_absent)
    with indexOf_ge [of hs h] have "indexOf hs h > - 1" by linarith
    with Some True show ?thesis
      by (simp add: off_event_def handlers_of_def Let_def update_conv' splice1_indexOf)
  next
    case False
    then have "indexOf hs h = - 1" by (simp add: indexOf_absent)
    with Some False show ?thesis
      by (simp add: off_event_def handlers_of_def Let_def remove1_idem)
  qed
qed

lemma run_handlers_trace:
  "invoked (trace (fold (run_handler throws d) hs c)) = invoked (trace c) @ map (\<lambda>h. (h, d)) hs"
  by (induction hs arbitrary: c)
     (simp_all add: run_handler_def log_effect_def Let_def invoked_append)

text \<open>\<open>emit\<close> calls every handler of the topic once per registration, in order.\<close>

lemma invoked_emit:
  "invoked (trace (emit throws e d c))
     = invoked (trace c) @ map (\<lambda>h. (h, d)) (handlers_of e c)"
  by (simp add: emit_def handlers_of_def run_handlers_trace split: option.splits)

lemma count_list_remove1: "h \<in> set xs \<Longrightarrow> Suc (count_list (remove1 h xs) h) = count_list xs h"
  by (induction xs) auto

lemma length_remove1_le: "length xs \<le> Suc (length (remove1 h xs))"
  by (induction xs) auto

lemma update_registrations:
  "map_of al k = Some hs \<Longrightarrow>
   length (concat (map snd (AList.update k hs' al))) + length hs
     = length (concat (map snd al)) + length hs'"
  by (induction al) (auto split: if_splits)

lemma off_registrations: "registrations c \<le> Suc (registrations (off_event e h c))"
proof (cases "map_of (eventHandlers c) e")
  case None
  then show ?thesis by (simp add: off_event_def)
next
  case (Some hs)
  show ?thesis
  proof (cases "h \<in> set hs")
    case True
    then have "indexOf hs h \<noteq> - 1" by (simp add: indexOf_absent)
    with indexOf_ge [of hs h] have "indexOf hs h > - 1" by linarith
    with Some True update_registrations [OF Some, of "remove1 h hs"] length_remove1_le [of hs h]
    show ?thesis
      by (simp add: off_event_def registrations_def Let_def splice1_indexOf)
  next
    case False
    then have "indexOf hs h = - 1" by (simp add: indexOf_absent)
    with Some show ?thesis by (simp add: off_event_def Let_def)
  qed
qed

text \<open>
  Claim C10. After the same handler \<open>h\<close> is registered twice for a topic, an emit of
  the topic calls the handlers that were there and then \<open>h\<close> twice. One \<open>off\<close> then
  removes the first matching registration only: \<open>h\<close> stays registered once more than
  before the two registrations, and an emit calls it accordingly. In any state \<open>off\<close>
  removes the first occurrence from the topic's list and takes away at most one
  registration over all topics.
\<close>

theorem duplicate_registration_on_off:
  "invoked (trace (emit throws e d (on_event e h (on_event e h c))))
     = invoked (trace c) @ map (\<lambda>x. (x, d)) (handlers_of e c) @ [(h, d), (h, d)]
   \<and> handlers_of e (off_event e h (on_event e h (on_event e h c)))
       = remove1 h (handlers_of e c @ [h, h])
   \<and> count_list (handlers_of e (off_event e h (on_event e h (on_event e h c)))) h
       = Suc (count_list (handlers_of e c) h)
   \<and> invoked (trace (emit throws e d (off_event e h (on_event e h (on_event e h c)))))
       = invoked (trace c) @ map (\<lambda>x. (x, d)) (remove1 h (handlers_of e c @ [h, h]))
   \<and> handlers_of e (off_event e h c) = remove1 h (handlers_of e c)
   \<and> registrations c \<le> Suc (registrations (off_event e h c))"
proof -
  have t: "trace (off_event e h c') = trace c'" for c'
    by (simp add: off_event_def Let_def split: option.splits)
  have t2: "trace (on_event e h c') = trace c'" for c'
    by (simp add: on_event_def Let_def)
  have cnt: "count_list (remove1 h (handlers_of e c @ [h, h])) h
               = Suc (count_list (handlers_of e c) h)"
    using count_list_remove1 [of h "handlers_of e c @ [h, h]"] by simp
  show ?thesis
    by (simp add: invoked_emit handlers_of_on handlers_of_off t t2 cnt off_registrations)
qed

end
